theory Spec2Isabelle
  imports Complex_Main "HOL-Library.AList" "HOL-Library.Sublist"
begin

section \<open>Python values, exceptions and dictionaries\<close>

text \<open>
  The plugin is a Python program. Its exceptions are values: a class and the message
  that \<^verbatim>\<open>str(error)\<close> gives. Asynchronous interrupts and interpreter exit are outside
  the model, so \<^verbatim>\<open>except Exception\<close> and a bare \<^verbatim>\<open>except\<close> catch the same
  exceptions.
\<close>

datatype exn_kind =
    IndexError | KeyError | ValueError | TypeError | AttributeError | UnboundLocalError
  | FileExistsError | FileNotFoundError | NotADirectoryError | IsADirectoryError
  | SameFileError | HostError

datatype exn = Exn exn_kind string

primrec exn_str :: "exn \<Rightarrow> string" where
  "exn_str (Exn k m) = m"

primrec kind_of :: "exn \<Rightarrow> exn_kind" where
  "kind_of (Exn k m) = k"

text \<open>
  Values handed over by the host program and the libraries. A Python float is modelled
  by the real number it stands for (no rounding); how \<^verbatim>\<open>str\<close> prints a float is a
  parameter of the runtime.
\<close>

datatype pyval =
    PNone | PBool bool | PInt int | PFloat real | PStr string | PTuple "pyval list"

type_synonym dict = "(string \<times> pyval) list"

definition digit_char :: "nat \<Rightarrow> char" where
  "digit_char d = ''0123456789'' ! d"

fun str_nat :: "nat \<Rightarrow> string" where
  "str_nat n = (if n < 10 then [digit_char n] else str_nat (n div 10) @ [digit_char (n mod 10)])"

declare str_nat.simps [simp del]

definition str_int :: "int \<Rightarrow> string" where
  "str_int i = (if i < 0 then CHR ''-'' # str_nat (nat (- i)) else str_nat (nat i))"

fun join_with :: "string \<Rightarrow> string list \<Rightarrow> string" where
  "join_with sep [] = []"
| "join_with sep [x] = x"
| "join_with sep (x # y # ys) = x @ sep @ join_with sep (y # ys)"

text \<open>
  \<^verbatim>\<open>repr\<close> and \<^verbatim>\<open>str\<close>. They differ on strings only; the quoting of a string inside
  a tuple is the plain one (no escapes), which is all the tuples built here need: they
  hold a float and an int.
\<close>

fun py_repr :: "(real \<Rightarrow> string) \<Rightarrow> pyval \<Rightarrow> string" where
  "py_repr fr PNone = ''None''"
| "py_repr fr (PBool b) = (if b then ''True'' else ''False'')"
| "py_repr fr (PInt i) = str_int i"
| "py_repr fr (PFloat x) = fr x"
| "py_repr fr (PStr s) = [CHR 0x27] @ s @ [CHR 0x27]"
| "py_repr fr (PTuple vs) =
     (case vs of [v] \<Rightarrow> ''('' @ py_repr fr v @ '',)''
      | _ \<Rightarrow> ''('' @ join_with '', '' (map (py_repr fr) vs) @ '')'')"

definition py_str :: "(real \<Rightarrow> string) \<Rightarrow> pyval \<Rightarrow> string" where
  "py_str fr v = (case v of PStr s \<Rightarrow> s | _ \<Rightarrow> py_repr fr v)"

definition truthy :: "pyval \<Rightarrow> bool" where
  "truthy v = (case v of PNone \<Rightarrow> False | PBool b \<Rightarrow> b | PInt i \<Rightarrow> i \<noteq> 0
     | PFloat x \<Rightarrow> x \<noteq> 0 | PStr s \<Rightarrow> s \<noteq> [] | PTuple vs \<Rightarrow> vs \<noteq> [])"

text \<open>
  A dict keeps insertion order: storing under a key that is present replaces the value in
  place, a new key goes to the end. That is \<^const>\<open>AList.update\<close>.
\<close>

definition dict_set :: "'k \<Rightarrow> 'v \<Rightarrow> ('k \<times> 'v) list \<Rightarrow> ('k \<times> 'v) list" where
  "dict_set k v d = AList.update k v d"

definition dict_update :: "('k \<times> 'v) list \<Rightarrow> ('k \<times> 'v) list \<Rightarrow> ('k \<times> 'v) list" where
  "dict_update d other = foldl (\<lambda>acc (k, v). dict_set k v acc) d other"

section \<open>Programs: state, exceptions, sequencing\<close>

text \<open>
  A statement runs in a state and either returns a value or raises; the state it leaves
  behind is kept in both cases, as Python keeps every effect made before a raise.
\<close>

type_synonym ('s, 'a) prog = "'s \<Rightarrow> (exn + 'a) \<times> 's"

definition ret :: "'a \<Rightarrow> ('s, 'a) prog" where
  "ret x s = (Inr x, s)"

definition raise :: "exn \<Rightarrow> ('s, 'a) prog" where
  "raise e s = (Inl e, s)"

definition bind :: "('s, 'a) prog \<Rightarrow> ('a \<Rightarrow> ('s, 'b) prog) \<Rightarrow> ('s, 'b) prog" where
  "bind m f s = (case m s of (Inl e, s') \<Rightarrow> (Inl e, s') | (Inr x, s') \<Rightarrow> f x s')"

fun block :: "('s, unit) prog list \<Rightarrow> ('s, unit) prog" where
  "block [] = ret ()"
| "block (m # ms) = bind m (\<lambda>_. block ms)"

definition try_except :: "('s, 'a) prog \<Rightarrow> (exn \<Rightarrow> ('s, 'a) prog) \<Rightarrow> ('s, 'a) prog" where
  "try_except m h s = (case m s of (Inl e, s') \<Rightarrow> h e s' | (Inr x, s') \<Rightarrow> (Inr x, s'))"

definition for_each :: "'a list \<Rightarrow> ('a \<Rightarrow> ('s, unit) prog) \<Rightarrow> ('s, unit) prog" where
  "for_each xs body = block (map body xs)"

definition modify :: "('s \<Rightarrow> 's) \<Rightarrow> ('s, unit) prog" where
  "modify f s = (Inr (), f s)"

definition py_index :: "'a list \<Rightarrow> nat \<Rightarrow> ('s, 'a) prog" where
  "py_index xs i =
     (if i < length xs then ret (xs ! i) else raise (Exn IndexError ''list index out of range''))"

section \<open>The file system\<close>

text \<open>
  A path is its list of components below the root: \<^verbatim>\<open>os.path.join(p, name)\<close> is
  \<open>p @ [name]\<close> and \<^verbatim>\<open>os.path.dirname(p)\<close> is \<open>butlast p\<close>. The file system maps paths
  to nodes; the order of the list is the order in which a directory lists its entries
  (what is there keeps its place, what is new goes to the end).
\<close>

type_synonym path = "string list"

datatype node = File string | Dir

type_synonym filesys = "(path \<times> node) list"

definition node_at :: "filesys \<Rightarrow> path \<Rightarrow> node option" where
  "node_at fs p = (if p = [] then Some Dir else map_of fs p)"

definition path_exists :: "filesys \<Rightarrow> path \<Rightarrow> bool" where
  "path_exists fs p = (node_at fs p \<noteq> None)"

definition endswith :: "string \<Rightarrow> string \<Rightarrow> bool" where
  "endswith s ext = prefix (rev ext) (rev s)"

text \<open>
  \<^verbatim>\<open>glob.glob(os.path.join(d, "*" + ext))\<close>: the entries of \<open>d\<close>, files and directories,
  whose name ends with \<open>ext\<close>; the star does not match a leading dot.
\<close>

definition star_match :: "string \<Rightarrow> string \<Rightarrow> bool" where
  "star_match ext name = (endswith name ext \<and> name \<noteq> [] \<and> hd name \<noteq> CHR ''.'')"

definition glob :: "filesys \<Rightarrow> path \<Rightarrow> string \<Rightarrow> path list" where
  "glob fs d ext = [p \<leftarrow> map fst fs. p \<noteq> [] \<and> butlast p = d \<and> star_match ext (last p)]"

definition is_file :: "filesys \<Rightarrow> path \<Rightarrow> bool" where
  "is_file fs p = (case node_at fs p of Some (File c) \<Rightarrow> True | _ \<Rightarrow> False)"

text \<open>
  \<^verbatim>\<open>os.makedirs(p)\<close> creates \<open>p\<close> and every missing directory above it; it raises when
  \<open>p\<close> exists or when a file stands in the way.
\<close>

definition makedirs :: "path \<Rightarrow> (filesys, unit) prog" where
  "makedirs p fs =
     (if path_exists fs p then (Inl (Exn FileExistsError ''File exists''), fs)
      else if list_ex (is_file fs) (prefixes p)
        then (Inl (Exn NotADirectoryError ''Not a directory''), fs)
      else (Inr (), fs @ [(q, Dir). q \<leftarrow> prefixes p, node_at fs q = None]))"

definition rmtree :: "path \<Rightarrow> (filesys, unit) prog" where
  "rmtree p fs =
     (case node_at fs p of
        None \<Rightarrow> (Inl (Exn FileNotFoundError ''No such file or directory''), fs)
      | Some (File c) \<Rightarrow> (Inl (Exn NotADirectoryError ''Not a directory''), fs)
      | Some Dir \<Rightarrow>
          (if p = [] then (Inl (Exn HostError ''cannot remove the root''), fs)
           else (Inr (), [e \<leftarrow> fs. \<not> prefix p (fst e)])))"

text \<open>
  \<^verbatim>\<open>shutil.copy(src, dst)\<close>: into \<open>dst\<close> under the source's name when \<open>dst\<close> is a
  directory, onto \<open>dst\<close> otherwise.
\<close>

definition copy :: "path \<Rightarrow> path \<Rightarrow> (filesys, unit) prog" where
  "copy src dst fs =
     (case node_at fs src of
        None \<Rightarrow> (Inl (Exn FileNotFoundError ''No such file or directory''), fs)
      | Some Dir \<Rightarrow> (Inl (Exn IsADirectoryError ''Is a directory''), fs)
      | Some (File c) \<Rightarrow>
          (let target = (if node_at fs dst = Some Dir then dst @ [last src] else dst) in
           if target = src then (Inl (Exn SameFileError ''are the same file''), fs)
           else if node_at fs target = Some Dir
             then (Inl (Exn IsADirectoryError ''Is a directory''), fs)
           else (Inr (), AList.update target (File c) fs)))"

section \<open>The job and the state of a run\<close>

text \<open>
  \<^verbatim>\<open>class BenchJob\<close>. The attribute \<^verbatim>\<open>id\<close> is \<open>id'\<close> here; \<open>ins_file\<close> does not exist
  before \<^verbatim>\<open>setup_workspace\<close> sets it.
\<close>

record benchjob =
  base_work_path :: path
  id' :: int
  use_nos2 :: bool
  nos2_params :: "dict option"
  work_path :: path
  time_needed :: real
  cycles_needed :: pyval
  ins_file :: "path option"

text \<open>
  Everything outside the plugin is reached by calls: the host program (olex, olx, OV,
  olex\_core), the refinement library (cctbx, FullMatrixRefine), the clock, and the files
  the refinement engine leaves in the workspace. Each call either raises or replies.
\<close>

datatype call =
    OlexM string | AddIns string | GetParam string | SetParam string pyval | GetVar string
  | Exti | EndUpdate | HasGUI | Refresh | PerfCounter
  | CellEx string | VolumeEx | GetZ | GetZprime | NPDCount | GetHklStat
  | GlobCif path | ReadFile string
  | ImportCctbx | FullMatrixRefine | FmrRun "string option" | BuildUp
  | R1Factor "real option" | WR2 | ConnectivityTable | XrayStructure
  | GetCell | GetCellErrors | ExtractLabels | SitesFrac | CovarianceMatrix
  | ParameterMap | PairAsuTable | CalculateDistances "real list"

datatype reply =
    RVal pyval | RReal real | RReals "real list" | RStrs "string list" | RDict dict
  | RDists "(exn + nat \<times> nat \<times> real \<times> real) list"

text \<open>
  The runtime is what the program runs against: how the outside replies to a call, given
  the calls made before it, and how a float prints.
\<close>

record runtime =
  respond :: "call list \<Rightarrow> call \<Rightarrow> exn + reply"
  float_repr :: "real \<Rightarrow> string"

text \<open>
  The local variables of \<^verbatim>\<open>extract_info\<close>, and \<open>out\<close> of \<^verbatim>\<open>parse_cif\<close>, which it
  calls; \<open>None\<close> is a name not yet bound.
\<close>

record frame =
  cell_stats :: "dict option"
  hkl_stats :: "dict option"
  cif_stats :: "dict option"
  dist_stats :: "(string \<times> real) list"
  dist_errs :: "(string \<times> real) list"
  R1_all :: real
  R1_gt :: real
  wR2 :: real
  out :: dict

record sys =
  self :: benchjob
  locals :: frame
  trace :: "call list"
  files :: filesys
  stdout :: "string list"

definition on_fs :: "(filesys, 'a) prog \<Rightarrow> (sys, 'a) prog" where
  "on_fs m s = (case m (files s) of (r, t) \<Rightarrow> (r, s\<lparr>files := t\<rparr>))"

definition host :: "runtime \<Rightarrow> call \<Rightarrow> (sys, reply) prog" where
  "host W c s = (respond W (trace s) c, s\<lparr>trace := trace s @ [c]\<rparr>)"

definition print_line :: "string \<Rightarrow> (sys, unit) prog" where
  "print_line x = modify (\<lambda>s. s\<lparr>stdout := stdout s @ [x]\<rparr>)"

text \<open>
  \<^verbatim>\<open>open(path, "a")\<close> and \<^verbatim>\<open>open(path, "w")\<close> inside the workspace: the workspace
  exists from the constructor on and nothing in the program removes it, so opening a file
  in it does not raise; appending creates the file when it is missing.
\<close>

definition append_file :: "path \<Rightarrow> string \<Rightarrow> filesys \<Rightarrow> filesys" where
  "append_file p x t =
     (case map_of t p of Some (File c) \<Rightarrow> AList.update p (File (c @ x)) t
      | _ \<Rightarrow> AList.update p (File x) t)"

definition write_log :: "string \<Rightarrow> (sys, unit) prog" where
  "write_log msg =
     modify (\<lambda>s. s\<lparr>files := append_file (work_path (self s) @ [''out.log'']) (msg @ ''\<newline>'') (files s)\<rparr>)"

definition write_log_header :: "string \<Rightarrow> (sys, unit) prog" where
  "write_log_header msg =
     (let bar = replicate 27 CHR ''='' in write_log (bar @ '' '' @ msg @ '' '' @ bar))"

section \<open>The workspace manager\<close>

definition setup_workspace :: "(sys, unit) prog" where
  "setup_workspace =
     bind (\<lambda>s. (Inr (self s), s)) (\<lambda>job. block [
       bind (\<lambda>s. (Inr (path_exists (files s) (work_path job)), s)) (\<lambda>ex.
         if \<not> ex then on_fs (makedirs (work_path job))
         else block [on_fs (rmtree (work_path job)), on_fs (makedirs (work_path job))]),
       bind (\<lambda>s. (Inr (glob (files s) (butlast (base_work_path job)) ''.hkl''), s)) (\<lambda>ms.
         bind (py_index ms 0) (\<lambda>src. on_fs (copy src (work_path job)))),
       bind (\<lambda>s. (Inr (glob (files s) (butlast (base_work_path job)) ''.ins''), s)) (\<lambda>ms.
         bind (py_index ms 0) (\<lambda>src. on_fs (copy src (work_path job)))),
       bind (\<lambda>s. (Inr (glob (files s) (work_path job) ''.ins''), s)) (\<lambda>ms.
         bind (py_index ms 0) (\<lambda>p. modify (\<lambda>s. s\<lparr>self := (self s)\<lparr>ins_file := Some p\<rparr>\<rparr>)))])"

text \<open>\<^verbatim>\<open>BenchJob.__init__\<close>: the new object is bound to \<open>self\<close> and returned.\<close>

definition BenchJob_init ::
  "path \<Rightarrow> int \<Rightarrow> bool \<Rightarrow> dict option \<Rightarrow> (sys, benchjob) prog" where
  "BenchJob_init base i use_nos2_arg params =
     bind (modify (\<lambda>s. s\<lparr>self :=
        \<lparr> base_work_path = base, id' = i,
          use_nos2 = (if params = None then False else use_nos2_arg),
          nos2_params = params,
          work_path = base @ [''job_'' @ str_int i],
          time_needed = 0, cycles_needed = PInt 0, ins_file = None \<rparr>\<rparr>))
       (\<lambda>_. bind setup_workspace (\<lambda>_ s. (Inr (self s), s)))"

text \<open>\<^verbatim>\<open>BenchJob.__str__\<close>\<close>

definition BenchJob_str :: "(real \<Rightarrow> string) \<Rightarrow> benchjob \<Rightarrow> string" where
  "BenchJob_str fr job =
     ''Job with following options:\<newline>'' @
     (case nos2_params job of
        None \<Rightarrow> ''IAM Job\<newline>''
      | Some d \<Rightarrow> concat (map (\<lambda>(k, v). k @ '':'' @ py_str fr v @ ''|'') d))"

section \<open>Strings and numbers\<close>

definition is_space :: "char \<Rightarrow> bool" where
  "is_space c = (c \<in> set [CHR '' '', CHR 0x09, CHR 0x0A, CHR 0x0B, CHR 0x0C, CHR 0x0D])"

definition is_digit :: "char \<Rightarrow> bool" where
  "is_digit c = (c \<in> set ''0123456789'')"

definition strip :: "string \<Rightarrow> string" where
  "strip s = rev (dropWhile is_space (rev (dropWhile is_space s)))"

text \<open>\<^verbatim>\<open>s.split(sep)\<close> for a separator of one character, and \<^verbatim>\<open>s.split()\<close>.\<close>

fun split_by :: "(char \<Rightarrow> bool) \<Rightarrow> string \<Rightarrow> string list" where
  "split_by P [] = [[]]"
| "split_by P (x # xs) =
     (if P x then [] # split_by P xs
      else (case split_by P xs of [] \<Rightarrow> [[x]] | y # ys \<Rightarrow> (x # y) # ys))"

definition split_on :: "char \<Rightarrow> string \<Rightarrow> string list" where
  "split_on c s = split_by (\<lambda>x. x = c) s"

definition py_split :: "string \<Rightarrow> string list" where
  "py_split s = filter (\<lambda>w. w \<noteq> []) (split_by is_space s)"

text \<open>\<^verbatim>\<open>p in s\<close> on strings.\<close>

fun contains :: "string \<Rightarrow> string \<Rightarrow> bool" where
  "contains p [] = (p = [])"
| "contains p (x # xs) = (prefix p (x # xs) \<or> contains p xs)"

text \<open>Iterating over an open text file gives its lines, each with its newline.\<close>

fun file_lines :: "string \<Rightarrow> string list" where
  "file_lines [] = []"
| "file_lines (x # xs) =
     (if x = CHR 0x0A then [x] # file_lines xs
      else (case file_lines xs of [] \<Rightarrow> [[x]] | l # ls \<Rightarrow> (x # l) # ls))"

definition digits_val :: "string \<Rightarrow> nat" where
  "digits_val ds = foldl (\<lambda>a c. 10 * a + (of_char c - 48)) 0 ds"

text \<open>
  \<^verbatim>\<open>float(s)\<close> and \<^verbatim>\<open>int(s)\<close> on decimal notation: surrounding blanks, a sign, digits
  with an optional fraction, an optional exponent. The value is exact. The spellings
  \<^verbatim>\<open>inf\<close> and \<^verbatim>\<open>nan\<close> and underscores between digits are outside the model (they are
  refused here).
\<close>

definition parse_sign :: "string \<Rightarrow> bool \<times> string" where
  "parse_sign s = (case s of [] \<Rightarrow> (False, [])
     | c # r \<Rightarrow> if c = CHR ''-'' then (True, r) else if c = CHR ''+'' then (False, r) else (False, s))"

definition parse_digits :: "bool \<times> string \<Rightarrow> int option" where
  "parse_digits sd =
     (case sd of (neg, ds) \<Rightarrow>
        if ds \<noteq> [] \<and> list_all is_digit ds
        then Some (if neg then - int (digits_val ds) else int (digits_val ds)) else None)"

definition parse_int :: "string \<Rightarrow> int option" where
  "parse_int s = parse_digits (parse_sign (strip s))"

definition parse_exponent :: "string \<Rightarrow> int option" where
  "parse_exponent s =
     (case s of [] \<Rightarrow> Some 0
      | c # r \<Rightarrow> if c = CHR ''e'' \<or> c = CHR ''E'' then parse_digits (parse_sign r) else None)"

definition parse_float :: "string \<Rightarrow> real option" where
  "parse_float s =
     (case parse_sign (strip s) of (neg, r) \<Rightarrow>
        let ip = takeWhile is_digit r; r1 = dropWhile is_digit r;
            fp = (case r1 of [] \<Rightarrow> [] | c # t \<Rightarrow> if c = CHR ''.'' then takeWhile is_digit t else []);
            r2 = (case r1 of [] \<Rightarrow> [] | c # t \<Rightarrow> if c = CHR ''.'' then dropWhile is_digit t else r1)
        in if ip = [] \<and> fp = [] then None
           else (case parse_exponent r2 of None \<Rightarrow> None
             | Some e \<Rightarrow>
                 let m = real (digits_val (ip @ fp)) / 10 ^ length fp;
                     v = (if 0 \<le> e then m * 10 ^ nat e else m / 10 ^ nat (- e))
                 in Some (if neg then - v else v)))"

definition quoted :: "string \<Rightarrow> string" where
  "quoted s = [CHR 0x27] @ s @ [CHR 0x27]"

definition py_float :: "string \<Rightarrow> ('s, real) prog" where
  "py_float s = (case parse_float s of Some x \<Rightarrow> ret x
     | None \<Rightarrow> raise (Exn ValueError (''could not convert string to float: '' @ quoted s)))"

definition py_int :: "string \<Rightarrow> ('s, int) prog" where
  "py_int s = (case parse_int s of Some x \<Rightarrow> ret x
     | None \<Rightarrow> raise (Exn ValueError (''invalid literal for int() with base 10: '' @ quoted s)))"

definition py_sqrt :: "real \<Rightarrow> ('s, real) prog" where
  "py_sqrt x = (if x < 0 then raise (Exn ValueError ''math domain error'') else ret (sqrt x))"

text \<open>Methods of \<^verbatim>\<open>str\<close> called on a value that may be something else.\<close>

definition str_split :: "pyval \<Rightarrow> char \<Rightarrow> ('s, string list) prog" where
  "str_split v c = (case v of PStr s \<Rightarrow> ret (split_on c s)
     | _ \<Rightarrow> raise (Exn AttributeError ''object has no attribute split''))"

definition iter_dict :: "dict option \<Rightarrow> ('s, dict) prog" where
  "iter_dict d = (case d of Some kvs \<Rightarrow> ret kvs
     | None \<Rightarrow> raise (Exn TypeError ''NoneType object is not iterable''))"

definition path_str :: "path \<Rightarrow> string" where
  "path_str p = concat (map (\<lambda>c. CHR ''/'' # c) p)"

section \<open>Calls to the host program\<close>

text \<open>A reply of another shape than the caller uses fails where it is used.\<close>

definition expect_val :: "reply \<Rightarrow> ('s, pyval) prog" where
  "expect_val r = (case r of RVal v \<Rightarrow> ret v | _ \<Rightarrow> raise (Exn TypeError ''unexpected reply''))"

definition expect_real :: "reply \<Rightarrow> ('s, real) prog" where
  "expect_real r = (case r of RReal v \<Rightarrow> ret v | _ \<Rightarrow> raise (Exn TypeError ''unexpected reply''))"

definition expect_reals :: "reply \<Rightarrow> ('s, real list) prog" where
  "expect_reals r = (case r of RReals v \<Rightarrow> ret v | _ \<Rightarrow> raise (Exn TypeError ''unexpected reply''))"

definition expect_strs :: "reply \<Rightarrow> ('s, string list) prog" where
  "expect_strs r = (case r of RStrs v \<Rightarrow> ret v | _ \<Rightarrow> raise (Exn TypeError ''unexpected reply''))"

definition expect_dict :: "reply \<Rightarrow> ('s, dict) prog" where
  "expect_dict r = (case r of RDict v \<Rightarrow> ret v | _ \<Rightarrow> raise (Exn TypeError ''unexpected reply''))"

definition expect_dists ::
  "reply \<Rightarrow> ('s, (exn + nat \<times> nat \<times> real \<times> real) list) prog" where
  "expect_dists r = (case r of RDists v \<Rightarrow> ret v | _ \<Rightarrow> raise (Exn TypeError ''unexpected reply''))"

definition command :: "runtime \<Rightarrow> call \<Rightarrow> (sys, unit) prog" where
  "command W c = bind (host W c) (\<lambda>_. ret ())"

definition olex_m :: "runtime \<Rightarrow> string \<Rightarrow> (sys, unit) prog" where
  "olex_m W cmd = command W (OlexM cmd)"

definition OV_GetParam :: "runtime \<Rightarrow> string \<Rightarrow> (sys, pyval) prog" where
  "OV_GetParam W name = bind (host W (GetParam name)) expect_val"

definition OV_SetParam :: "runtime \<Rightarrow> string \<Rightarrow> pyval \<Rightarrow> (sys, unit) prog" where
  "OV_SetParam W name v = command W (SetParam name v)"

definition OV_GetVar :: "runtime \<Rightarrow> string \<Rightarrow> (sys, pyval) prog" where
  "OV_GetVar W name = bind (host W (GetVar name)) expect_val"

definition query :: "runtime \<Rightarrow> call \<Rightarrow> (sys, pyval) prog" where
  "query W c = bind (host W c) expect_val"

definition perf_counter :: "runtime \<Rightarrow> (sys, real) prog" where
  "perf_counter W = bind (host W PerfCounter) expect_real"

definition get_self :: "(sys, benchjob) prog" where
  "get_self s = (Inr (self s), s)"

definition set_self :: "(benchjob \<Rightarrow> benchjob) \<Rightarrow> (sys, unit) prog" where
  "set_self f = modify (\<lambda>s. s\<lparr>self := f (self s)\<rparr>)"

section \<open>The refinement stage driver\<close>

definition configure_ORCA :: "runtime \<Rightarrow> (sys, unit) prog" where
  "configure_ORCA W = block [
     command W EndUpdate,
     bind (query W HasGUI) (\<lambda>g. if truthy g then command W Refresh else ret ()),
     OV_SetParam W ''snum.NoSpherA2.source'' (PStr ''ORCA 6.0''),
     bind get_self (\<lambda>job. bind (iter_dict (nos2_params job)) (\<lambda>d.
       for_each d (\<lambda>(key, v). block [
         OV_SetParam W (''snum.NoSpherA2.'' @ key) (PStr (py_str (float_repr W) v)),
         bind (OV_GetParam W (''snum.NoSpherA2.'' @ key)) (\<lambda>x.
           write_log (key @ '': '' @ py_str (float_repr W) x))]))),
     OV_SetParam W ''snum.NoSpherA2.Calculate'' (PBool True),
     OV_SetParam W ''snum.NoSpherA2.precise_output'' (PBool True),
     OV_SetParam W ''snum.NoSpherA2.use_aspherical'' (PBool True),
     OV_SetParam W ''snum.NoSpherA2.h_aniso'' (PBool True),
     bind (OV_GetParam W ''snum.NoSpherA2.multiplicity'') (\<lambda>m.
       if m = PStr ''0'' then block [
         write_log ''I wil set a Multiplicity of 1, since none selected'',
         OV_SetParam W ''snum.NoSpherA2.multiplicity'' (PStr ''1'')]
       else ret ())]"

text \<open>Lines 124 to 150 of \<^verbatim>\<open>refine\<close>: load, prepare, weighting, engine, first pass.\<close>

definition get_ins_file :: "(sys, path) prog" where
  "get_ins_file = bind get_self (\<lambda>job. case ins_file job of Some p \<Rightarrow> ret p
     | None \<Rightarrow> raise (Exn AttributeError ''BenchJob object has no attribute ins_file''))"

definition refine_start :: "runtime \<Rightarrow> (sys, unit) prog" where
  "refine_start W = block [
     bind get_ins_file (\<lambda>p. olex_m W (''reap '' @ path_str p)),
     write_log_header ''Starting New Refinement'',
     bind get_self (\<lambda>job. write_log (''ID: '' @ str_int (id' job))),
     bind get_ins_file (\<lambda>p. write_log (''Was able to load .ins: '' @ path_str p)),
     command W (AddIns ''EXTI''),
     command W (AddIns ''ACTA''),
     olex_m W ''fix disp -c'',
     bind (OV_GetParam W ''sisyphos.update_weight'') (\<lambda>w.
       if truthy w then block [
         OV_SetParam W ''snum.refinement.update_weight'' (PBool True),
         write_log ''Refining the weighting scheme'']
       else block [
         OV_SetParam W ''snum.refinement.update_weight'' (PBool False),
         write_log ''keeping weighting scheme'']),
     olex_m W ''spy.set_refinement_program(olex2.refine, Gauss-Newton)'',
     write_log ''Set refinement engine olex2.refine with G-N'',
     OV_SetParam W ''snum.NoSpherA2.use_aspherical'' (PBool False),
     for_each [0 ..< 3] (\<lambda>_. olex_m W ''refine 5'')]"

text \<open>Lines 153 to 163: the extinction branch.\<close>

definition delete_exti :: call where
  "delete_exti = OlexM ''delins EXTI''"

definition set_levenberg_marquardt :: call where
  "set_levenberg_marquardt = OlexM ''spy.set_refinement_program(olex2.refine, Levenberg-Marquardt)''"

definition exti_branch :: "runtime \<Rightarrow> (sys, unit) prog" where
  "exti_branch W =
     bind (query W Exti) (\<lambda>exti. block [
       write_log (''Found Extinction: '' @ py_str (float_repr W) exti),
       if exti \<noteq> PStr ''n/a'' then
         bind (str_split exti CHR ''('') (\<lambda>parts. bind (py_index parts 0) (\<lambda>h.
           bind (py_float h) (\<lambda>x.
             if x < 0.001 then block [
               command W delete_exti,
               write_log (''Deleted EXTI with exti of: '' @ py_str (float_repr W) exti)]
             else block [
               write_log ''Exti > 0.001, set L-M instead of G-N'',
               command W set_levenberg_marquardt])))
       else ret ()])"

text \<open>Lines 169 to 181: the NoSpherA2 pass.\<close>

definition nos2_pass :: "runtime \<Rightarrow> (sys, unit) prog" where
  "nos2_pass W = block [
     configure_ORCA W,
     write_log ''Starting iterative NoSpherA2 refinement'',
     bind (perf_counter W) (\<lambda>start. block [
       olex_m W ''refine 20'',
       bind (perf_counter W) (\<lambda>stop. block [
         write_log (''Refinement took '' @ float_repr W (stop - start) @ '' seconds''),
         bind (OV_GetVar W ''Run_number'') (\<lambda>n.
           write_log (''Refinement took '' @ py_str (float_repr W) n @ '' cycles'')),
         set_self (\<lambda>job. job\<lparr>time_needed := stop - start\<rparr>),
         bind (OV_GetVar W ''Run_number'') (\<lambda>n. set_self (\<lambda>job. job\<lparr>cycles_needed := n\<rparr>))])])]"

definition refine_body :: "runtime \<Rightarrow> (sys, unit) prog" where
  "refine_body W = block [
     refine_start W,
     exti_branch W,
     olex_m W ''refine 10'',
     bind get_self (\<lambda>job. if use_nos2 job then nos2_pass W else ret ())]"

definition refine :: "runtime \<Rightarrow> (sys, unit) prog" where
  "refine W =
     try_except (refine_body W) (\<lambda>error. block [
       write_log (exn_str error),
       write_log ''Failed during refinenement!''])"

section \<open>The statistics extractor\<close>

definition new_frame :: frame where
  "new_frame = \<lparr> cell_stats = None, hkl_stats = None, cif_stats = None, dist_stats = [],
     dist_errs = [], R1_all = 0, R1_gt = 0, wR2 = 0, out = [] \<rparr>"

definition set_local :: "(frame \<Rightarrow> frame) \<Rightarrow> (sys, unit) prog" where
  "set_local f = modify (\<lambda>s. s\<lparr>locals := f (locals s)\<rparr>)"

definition get_locals :: "(sys, frame) prog" where
  "get_locals s = (Inr (locals s), s)"

text \<open>Reading a local name that no assignment has bound.\<close>

definition get_local :: "(frame \<Rightarrow> 'a option) \<Rightarrow> string \<Rightarrow> (sys, 'a) prog" where
  "get_local var name =
     bind get_locals (\<lambda>fr. case var fr of Some v \<Rightarrow> ret v
       | None \<Rightarrow> raise (Exn UnboundLocalError
           (''cannot access local variable '' @ quoted name @
            '' where it is not associated with a value'')))"

definition py_last :: "'a list \<Rightarrow> ('s, 'a) prog" where
  "py_last xs = (if xs = [] then raise (Exn IndexError ''list index out of range'') else ret (last xs))"

definition enumerate :: "'a list \<Rightarrow> (nat \<times> 'a) list" where
  "enumerate xs = zip [0 ..< length xs] xs"

subsection \<open>\<^verbatim>\<open>parse_cif\<close>\<close>

definition dat_names :: "string list" where
  "dat_names = [''mu'', ''wavelength'', ''F000'', ''tot_reflIns'', ''goof'', ''R_all'', ''R1'',
     ''wR2'', ''last Shift'']"

definition corr_filts :: "string list" where
  "corr_filts = [''exptl_absorpt_coefficient_mu'', ''diffrn_radiation_wavelength'',
     ''exptl_crystal_F_000'', ''diffrn_reflns_number'', ''refine_ls_goodness_of_fit_ref'',
     ''refine_ls_R_factor_all'', ''refine_ls_R_factor_gt'', ''refine_ls_wR_factor_ref'',
     ''REM Shift_max'']"

definition open_read :: "runtime \<Rightarrow> string \<Rightarrow> (sys, string list) prog" where
  "open_read W loc =
     bind (host W (ReadFile loc)) (\<lambda>r. bind (expect_val r) (\<lambda>v.
       case v of PStr c \<Rightarrow> ret (file_lines c) | _ \<Rightarrow> raise (Exn TypeError ''unexpected reply'')))"

definition basic_line :: "string \<Rightarrow> (sys, unit) prog" where
  "basic_line line =
     for_each (enumerate corr_filts) (\<lambda>(i, filt).
       if contains filt line then
         bind (py_last (py_split line)) (\<lambda>tok. bind (py_float tok) (\<lambda>x.
           bind (py_index dat_names i) (\<lambda>name.
             set_local (\<lambda>fr. fr\<lparr>out := dict_set name (PFloat x) (out fr)\<rparr>))))
       else ret ())"

definition atom_line :: "string \<Rightarrow> (sys, unit) prog" where
  "atom_line line =
     (let lin = split_on CHR '' '' line in
      bind (py_index lin 1) (\<lambda>atom.
      bind (py_index lin 6) (\<lambda>f6. bind (py_index (split_on CHR ''('' f6) 0) (\<lambda>ueq.
      bind (py_index lin 6) (\<lambda>g6. bind (py_index (split_on CHR ''('' g6) 1) (\<lambda>d.
      bind (py_float ueq) (\<lambda>u. bind (py_int (butlast d)) (\<lambda>n.
        set_local (\<lambda>fr. fr\<lparr>out :=
          dict_set (atom @ ''_ueq'') (PTuple [PFloat u, PInt n]) (out fr)\<rparr>)))))))))"

fun atom_pass :: "bool \<Rightarrow> string list \<Rightarrow> (sys, unit) prog" where
  "atom_pass switch2 [] = ret ()"
| "atom_pass switch2 (line # rest) =
     (if prefix ''  _atom_site_refinement_flags_occupancy'' line then atom_pass True rest
      else if switch2 then
        (if prefix [CHR 0x0A] line then atom_pass False rest
         else bind (atom_line line) (\<lambda>_. atom_pass True rest))
      else atom_pass switch2 rest)"

definition parse_cif :: "runtime \<Rightarrow> string \<Rightarrow> (sys, dict) prog" where
  "parse_cif W loc =
     bind (block [
       set_local (\<lambda>fr. fr\<lparr>out := []\<rparr>),
       try_except
         (block [
            bind (open_read W loc) (\<lambda>incif. for_each incif basic_line),
            write_log ''Basic cif extraction succesfull :)''])
         (\<lambda>_. write_log ''Basic cif extraction failed! :(''),
       try_except
         (bind (open_read W loc) (\<lambda>incif. atom_pass False incif))
         (\<lambda>e. block [write_log (exn_str e), write_log ''Extended cif extraction failed!''])])
       (\<lambda>_. bind get_locals (\<lambda>fr. ret (out fr)))"

subsection \<open>Cell, reflection and cif statistics\<close>

definition cell_put :: "string \<Rightarrow> pyval \<Rightarrow> (sys, unit) prog" where
  "cell_put k v =
     bind (get_local cell_stats ''cell_stats'') (\<lambda>d.
       set_local (\<lambda>fr. fr\<lparr>cell_stats := Some (dict_set k v d)\<rparr>))"

definition extract_cell_stats :: "runtime \<Rightarrow> (sys, unit) prog" where
  "extract_cell_stats W =
     try_except
       (block [
          set_local (\<lambda>fr. fr\<lparr>cell_stats := Some []\<rparr>),
          for_each [''a'', ''b'', ''c'', ''alpha'', ''beta'', ''gamma'']
            (\<lambda>x. bind (query W (CellEx x)) (\<lambda>val. cell_put x val)),
          bind (query W VolumeEx) (cell_put ''volume''),
          bind (query W GetZ) (cell_put ''Z''),
          bind (query W GetZprime) (cell_put ''Zprime'')])
       (\<lambda>error. block [write_log (exn_str error), write_log ''Failed to extract Cell stats.''])"

definition extract_hkl_stats :: "runtime \<Rightarrow> (sys, unit) prog" where
  "extract_hkl_stats W =
     bind (host W GetHklStat) (\<lambda>r. bind (expect_dict r) (\<lambda>d.
       set_local (\<lambda>fr. fr\<lparr>hkl_stats := Some d\<rparr>)))"

definition extract_cif_stats :: "runtime \<Rightarrow> (sys, unit) prog" where
  "extract_cif_stats W =
     try_except
       (bind get_self (\<lambda>job. bind (host W (GlobCif (work_path job))) (\<lambda>r.
          bind (expect_strs r) (\<lambda>ms. bind (py_index ms 0) (\<lambda>locat.
            bind (parse_cif W locat) (\<lambda>d. set_local (\<lambda>fr. fr\<lparr>cif_stats := Some d\<rparr>)))))))
       (\<lambda>error. block [write_log (exn_str error), write_log ''Failed to extract cif stats!''])"

section \<open>The error-propagation engine\<close>

text \<open>
  Lines 326 to 342. \<^verbatim>\<open>flex.pow2(matrix.diag(cell_errors))\<close> is the square matrix with the
  squared errors on its diagonal, one row per cell error; the loop then writes the
  off-diagonal entries of the length axes.
\<close>

type_synonym matrix = "real list list"

definition diag_pow2 :: "real list \<Rightarrow> matrix" where
  "diag_pow2 es =
     map (\<lambda>i. map (\<lambda>j. if i = j then (es ! i)\<^sup>2 else 0) [0 ..< length es]) [0 ..< length es]"

definition mat_set :: "nat \<Rightarrow> nat \<Rightarrow> real \<Rightarrow> (matrix, unit) prog" where
  "mat_set i j v m =
     (if i < length m \<and> j < length (m ! i) then (Inr (), m[i := (m ! i)[j := v]])
      else (Inl (Exn IndexError ''index out of range''), m))"

definition and_also :: "('s, bool) prog \<Rightarrow> ('s, bool) prog \<Rightarrow> ('s, bool) prog" where
  "and_also a b = bind a (\<lambda>x. if x then b else ret False)"

definition idx_eq :: "real list \<Rightarrow> nat \<Rightarrow> nat \<Rightarrow> ('s, bool) prog" where
  "idx_eq xs i j = bind (py_index xs i) (\<lambda>a. bind (py_index xs j) (\<lambda>b. ret (a = b)))"

definition idx_is :: "real list \<Rightarrow> nat \<Rightarrow> real \<Rightarrow> ('s, bool) prog" where
  "idx_is xs i v = bind (py_index xs i) (\<lambda>a. ret (a = v))"

definition constrained_pair :: "real list \<Rightarrow> real list \<Rightarrow> nat \<Rightarrow> nat \<Rightarrow> ('s, bool) prog" where
  "constrained_pair cell_params cell_errors i j =
     and_also (idx_eq cell_params i j)
    (and_also (idx_eq cell_errors i j)
    (and_also (idx_is cell_params (i + 3) 90)
    (and_also (idx_is cell_errors (i + 3) 0)
    (and_also (idx_is cell_params (j + 3) 90)
              (idx_is cell_errors (j + 3) 0)))))"

definition cell_loop :: "real list \<Rightarrow> real list \<Rightarrow> (matrix, unit) prog" where
  "cell_loop cell_params cell_errors =
     for_each [0 ..< 3] (\<lambda>i. for_each [i + 1 ..< 3] (\<lambda>j.
       bind (constrained_pair cell_params cell_errors i j) (\<lambda>c.
         if c then block [
           bind (py_index cell_errors i) (\<lambda>e. mat_set i j (e\<^sup>2)),
           bind (py_index cell_errors i) (\<lambda>e. mat_set j i (e\<^sup>2))]
         else ret ())))"

definition cell_covariance :: "real list \<Rightarrow> real list \<Rightarrow> exn + matrix" where
  "cell_covariance cell_params cell_errors =
     (case cell_loop cell_params cell_errors (diag_pow2 cell_errors) of
        (Inl e, m) \<Rightarrow> Inl e | (Inr u, m) \<Rightarrow> Inr m)"

text \<open>\<^verbatim>\<open>matrix_symmetric_as_packed_u\<close>: the upper triangle, row by row.\<close>

definition packed_u :: "matrix \<Rightarrow> real list" where
  "packed_u m = concat (map (\<lambda>i. map (\<lambda>j. m ! i ! j) [i ..< length m]) [0 ..< length m])"

definition lift_result :: "exn + 'a \<Rightarrow> ('s, 'a) prog" where
  "lift_result r = (case r of Inl e \<Rightarrow> raise e | Inr x \<Rightarrow> ret x)"

text \<open>
  One turn of the loop over the distances (lines 360 to 363). The iterator computes a
  pair when it is asked for it, so it is the iterator that raises for a pair it cannot
  compute.
\<close>

definition distance_step ::
  "string list \<Rightarrow> exn + nat \<times> nat \<times> real \<times> real \<Rightarrow> (sys, unit) prog" where
  "distance_step sl item =
     bind (lift_result item) (\<lambda>(i_seq, j_seq, distance, variance).
       bind (py_index sl i_seq) (\<lambda>a. bind (py_index sl j_seq) (\<lambda>b.
         block [
           set_local (\<lambda>fr. fr\<lparr>dist_stats := dict_set (a @ ''-'' @ b) distance (dist_stats fr)\<rparr>),
           bind (py_sqrt variance) (\<lambda>e.
             set_local (\<lambda>fr. fr\<lparr>dist_errs := dict_set (a @ ''-'' @ b) e (dist_errs fr)\<rparr>))])))"

definition table_name_of :: "runtime \<Rightarrow> (sys, string) prog" where
  "table_name_of W =
     bind get_self (\<lambda>job.
       if use_nos2 job
       then bind (OV_GetParam W ''snum.NoSpherA2.file'') (\<lambda>v. ret (py_str (float_repr W) v))
       else ret [])"

definition propagate_body :: "runtime \<Rightarrow> (sys, unit) prog" where
  "propagate_body W =
     bind (table_name_of W) (\<lambda>table_name. block [
       command W ImportCctbx,
       command W FullMatrixRefine,
       command W (FmrRun (if table_name \<noteq> [] then Some table_name else None)),
       command W BuildUp,
       bind (bind (host W (R1Factor None)) expect_real) (\<lambda>x. set_local (\<lambda>fr. fr\<lparr>R1_all := x\<rparr>)),
       bind (bind (host W (R1Factor (Some 2))) expect_real) (\<lambda>x. set_local (\<lambda>fr. fr\<lparr>R1_gt := x\<rparr>)),
       bind (bind (host W WR2) expect_real) (\<lambda>x. set_local (\<lambda>fr. fr\<lparr>wR2 := x\<rparr>)),
       command W ConnectivityTable,
       command W XrayStructure,
       bind (bind (host W GetCell) expect_reals) (\<lambda>cell_params.
       bind (bind (host W GetCellErrors) expect_reals) (\<lambda>cell_errors.
       bind (lift_result (cell_covariance cell_params cell_errors)) (\<lambda>cell_vcv.
       bind (bind (host W ExtractLabels) expect_strs) (\<lambda>sl. block [
         command W SitesFrac,
         command W CovarianceMatrix,
         command W ParameterMap,
         command W PairAsuTable,
         bind (bind (host W (CalculateDistances (packed_u cell_vcv))) expect_dists) (\<lambda>distances.
           for_each distances (distance_step sl))]))))])"

definition propagate :: "runtime \<Rightarrow> (sys, unit) prog" where
  "propagate W =
     try_except (propagate_body W) (\<lambda>error. block [
       print_line (exn_str error),
       print_line ''Could not obtain cctbx object and calculate ESDs!\<newline>'',
       write_log (exn_str error),
       write_log ''Failed to extract distances''])"

section \<open>The results file\<close>

definition out_write :: "string \<Rightarrow> (sys, unit) prog" where
  "out_write x =
     modify (\<lambda>s. s\<lparr>files := append_file (work_path (self s) @ [''results.txt'']) x (files s)\<rparr>)"

definition entry :: "string \<Rightarrow> string \<Rightarrow> string" where
  "entry k v = k @ '':'' @ v @ '',''"

definition dict_get :: "(string \<times> 'a) list \<Rightarrow> string \<Rightarrow> ('s, 'a) prog" where
  "dict_get d k = (case map_of d k of Some v \<Rightarrow> ret v | None \<Rightarrow> raise (Exn KeyError (quoted k)))"

definition refine_keys :: "string list" where
  "refine_keys = [''max_peak'', ''max_hole'', ''res_rms'', ''goof'', ''max_shift_over_esd'',
     ''hooft_str'']"

definition write_results :: "runtime \<Rightarrow> (sys, unit) prog" where
  "write_results W = block [
     out_write ''NoSpherA2_Dict:\<newline>'',
     bind get_self (\<lambda>job.
       if use_nos2 job then
         bind (iter_dict (nos2_params job)) (\<lambda>d.
           for_each d (\<lambda>(key, v). out_write (entry key (py_str (float_repr W) v))))
       else ret ()),
     out_write ''\<newline>Stats-GetHklStat:\<newline>'',
     bind (get_local hkl_stats ''hkl_stats'') (\<lambda>d.
       for_each d (\<lambda>(key, v). out_write (entry key (py_str (float_repr W) v)))),
     out_write ''\<newline>Cell-Stats:\<newline>'',
     bind (get_local cell_stats ''cell_stats'') (\<lambda>d.
       for_each d (\<lambda>(key, v). out_write (entry key (py_str (float_repr W) v)))),
     out_write ''\<newline>CIF-stats:\<newline>'',
     bind (get_local cif_stats ''cif_stats'') (\<lambda>d.
       for_each d (\<lambda>(key, v). out_write (entry key (py_str (float_repr W) v)))),
     out_write ''\<newline>refine_dict:\<newline>'',
     for_each refine_keys (\<lambda>key.
       bind (OV_GetParam W (''snum.refinement.'' @ key)) (\<lambda>v.
         out_write (entry key (py_str (float_repr W) v)))),
     bind get_locals (\<lambda>fr. bind get_self (\<lambda>job.
       out_write (''R1_all:'' @ float_repr W (R1_all fr) @ '',R1_gt:'' @ float_repr W (R1_gt fr)
         @ '',wR2:'' @ float_repr W (wR2 fr)
         @ '',cycles:'' @ py_str (float_repr W) (cycles_needed job)
         @ '',time:'' @ float_repr W (time_needed job) @ '',''))),
     out_write ''\<newline>bondlengths:\<newline>'',
     bind get_locals (\<lambda>fr.
       for_each (dist_stats fr) (\<lambda>(key, v). out_write (entry key (float_repr W v)))),
     out_write ''\<newline>bonderrors:\<newline>'',
     bind get_locals (\<lambda>fr.
       for_each (map fst (dist_stats fr)) (\<lambda>key.
         bind (dict_get (dist_errs fr) key) (\<lambda>v. out_write (entry key (float_repr W v))))),
     bind (OV_GetParam W ''sisyphos.update_weight'') (\<lambda>v.
       out_write (''\<newline>Weight:'' @ py_str (float_repr W) v)),
     bind (query W NPDCount) (\<lambda>v. out_write (''\<newline>Nr. NPD:'' @ py_str (float_repr W) v)),
     out_write ''\<newline>+++++++++++++++++++\<newline>'']"

definition extract_info :: "runtime \<Rightarrow> (sys, unit) prog" where
  "extract_info W = block [
     set_local (\<lambda>_. new_frame),
     extract_cell_stats W,
     extract_hkl_stats W,
     extract_cif_stats W,
     set_local (\<lambda>fr. fr\<lparr>dist_stats := [], dist_errs := [], R1_all := 0, R1_gt := 0, wR2 := 0\<rparr>),
     propagate W,
     write_results W]"

section \<open>Running a job\<close>

definition done_path :: "benchjob \<Rightarrow> path" where
  "done_path job = work_path job @ [''done'']"

definition create_done :: "(sys, unit) prog" where
  "create_done = modify (\<lambda>s. s\<lparr>files := AList.update (done_path (self s)) (File []) (files s)\<rparr>)"

definition BenchJob_run :: "runtime \<Rightarrow> (sys, unit) prog" where
  "BenchJob_run W = block [
     refine W,
     write_log_header ''Finished Refinement'',
     bind (try_except (bind (extract_info W) (\<lambda>_. ret True))
             (\<lambda>_. bind (block [
                print_line ''Faield to extract information'',
                write_log ''Failed to extract information!'']) (\<lambda>_. ret False)))
       (\<lambda>done_flag. if done_flag then block [write_log ''Extracted Information'', create_done]
          else ret ())]"

section \<open>The job orchestrator\<close>

text \<open>
  Modelled from the spec: the benchmark configuration source, class
  \<^verbatim>\<open>SisyphosBenchmarkFile\<close> of the module \<^verbatim>\<open>sisy_jobs\<close>, which is not among the sources.
  The spec gives it as an "ordered, indexable sequence of configuration mappings" with
  \<^verbatim>\<open>is_finished(index)\<close>; indexing is that of a Python sequence.
\<close>

record benchfile =
  configs :: "dict list"
  is_finished :: "int \<Rightarrow> bool"

definition py_getitem :: "'a list \<Rightarrow> int \<Rightarrow> ('s, 'a) prog" where
  "py_getitem xs i =
     (if 0 \<le> i \<and> i < int (length xs) then ret (xs ! nat i)
      else if - int (length xs) \<le> i \<and> i < 0 then ret (xs ! nat (int (length xs) + i))
      else raise (Exn IndexError ''list index out of range''))"

text \<open>The attributes of \<^verbatim>\<open>class SISYPHOS\<close> that \<^verbatim>\<open>init_sisy_jobs\<close> reads.\<close>

record sisyphos =
  bench_path :: path
  sisy_job_idx :: int
  nos2_options :: dict
  use_nosphera2 :: bool

definition nos_params :: "string list" where
  "nos_params = [''basis_name'', ''method'', ''ncpus'', ''mem'', ''charge'', ''multiplicity'',
     ''full_HAR'', ''Max_HAR_Cycles'', ''becke_accuracy'', ''Relativistic'', ''h_aniso'',
     ''h_afix'', ''add_disp'', ''cluster_radius'', ''DIIS'', ''cluster_grow'', ''ORCA_SCF_Conv'',
     ''ORCA_SCF_Strategy'', ''ORCA_Solvation'', ''pySCF_Damping'', ''ORCA_DAMP'']"

text \<open>
  Lines 515 to 524 and 532 to 540: the job for index \<open>i\<close> and configuration \<open>job\<close>.
\<close>

definition new_job :: "sisyphos \<Rightarrow> int \<Rightarrow> dict \<Rightarrow> (sys, benchjob) prog" where
  "new_job sis i job =
     (let tmp_job_dict = dict_update (nos2_options sis) job in
      if ''IAM'' \<in> fst ` set tmp_job_dict then BenchJob_init (bench_path sis) i False None
      else BenchJob_init (bench_path sis) i (use_nosphera2 sis) (Some tmp_job_dict))"

fun batch_jobs ::
  "sisyphos \<Rightarrow> benchfile \<Rightarrow> (nat \<times> dict) list \<Rightarrow> benchjob list \<Rightarrow> (sys, benchjob list) prog" where
  "batch_jobs sis sisy_jobs [] job_list = ret job_list"
| "batch_jobs sis sisy_jobs ((i, job) # rest) job_list =
     (if is_finished sisy_jobs (int i) then
        bind (print_line (''Job '' @ str_int (int i) @ '' already finished, skipping''))
          (\<lambda>_. batch_jobs sis sisy_jobs rest job_list)
      else bind (new_job sis (int i) job)
          (\<lambda>j. batch_jobs sis sisy_jobs rest (job_list @ [j])))"

definition init_sisy_jobs :: "sisyphos \<Rightarrow> benchfile \<Rightarrow> (sys, benchjob list) prog" where
  "init_sisy_jobs sis sisy_jobs =
     (if sisy_job_idx sis \<noteq> - 1 then
        (if is_finished sisy_jobs (sisy_job_idx sis) then
           bind (print_line (''Job '' @ str_int (sisy_job_idx sis) @ '' already finished, skipping''))
             (\<lambda>_. ret [])
         else bind (py_getitem (configs sisy_jobs) (sisy_job_idx sis)) (\<lambda>job.
                bind (new_job sis (sisy_job_idx sis) job) (\<lambda>j. ret [j])))
      else batch_jobs sis sisy_jobs (enumerate (configs sisy_jobs)) [])"

fun load_options :: "runtime \<Rightarrow> string list \<Rightarrow> dict \<Rightarrow> (sys, dict) prog" where
  "load_options W [] d = ret d"
| "load_options W (param # ps) d =
     bind (OV_GetParam W (''snum.NoSpherA2.'' @ param)) (\<lambda>v. load_options W ps (dict_set param v d))"

text \<open>\<^verbatim>\<open>SISYPHOS.run\<close>: every job of the list is run, in order, and nothing else is.\<close>

definition run_jobs :: "runtime \<Rightarrow> benchjob list \<Rightarrow> (sys, unit) prog" where
  "run_jobs W job_list =
     for_each job_list (\<lambda>job. block [
       print_line (''--------------------------Running job '' @ str_int (id' job)
         @ ''-----------------------------''),
       set_self (\<lambda>_. job),
       BenchJob_run W])"

definition SISYPHOS_run :: "runtime \<Rightarrow> sisyphos \<Rightarrow> benchfile \<Rightarrow> (sys, unit) prog" where
  "SISYPHOS_run W sis sisy_jobs =
     bind (OV_GetParam W ''sisyphos.use_nos2'') (\<lambda>u.
     bind (load_options W nos_params (nos2_options sis)) (\<lambda>opts.
     bind (init_sisy_jobs
             (sis\<lparr>use_nosphera2 := truthy u,
                  nos2_options := dict_set ''Max_HAR_Cycles'' (PInt 15)
                                    (dict_set ''full_HAR'' (PBool True) opts)\<rparr>) sisy_jobs)
       (run_jobs W)))"

section \<open>Notions used to state the properties\<close>

text \<open>
  The condition of the symmetry correction, in the words of the specification: both
  lengths and both uncertainties equal, both angles 90 with zero uncertainty.
\<close>

definition constrained :: "real list \<Rightarrow> real list \<Rightarrow> nat \<Rightarrow> nat \<Rightarrow> bool" where
  "constrained cell_params cell_errors i j =
     (cell_params ! i = cell_params ! j \<and> cell_errors ! i = cell_errors ! j
      \<and> cell_params ! (i + 3) = 90 \<and> cell_errors ! (i + 3) = 0
      \<and> cell_params ! (j + 3) = 90 \<and> cell_errors ! (j + 3) = 0)"

text \<open>What one turn of the loop of lines 329 to 340 does to the matrix.\<close>

definition pair_step :: "real list \<Rightarrow> real list \<Rightarrow> nat \<Rightarrow> nat \<Rightarrow> (matrix, unit) prog" where
  "pair_step cell_params cell_errors i j =
     (if constrained cell_params cell_errors i j
      then block [mat_set i j ((cell_errors ! i)\<^sup>2), mat_set j i ((cell_errors ! i)\<^sup>2)]
      else ret ())"

text \<open>
  A relation between the state before and the state after that every run of a program
  upholds, whether it returns or raises.
\<close>

definition upholds :: "('s \<Rightarrow> 's \<Rightarrow> bool) \<Rightarrow> ('s, 'a) prog \<Rightarrow> bool" where
  "upholds R m = (\<forall>s. R s (snd (m s)))"

definition preorder :: "('s \<Rightarrow> 's \<Rightarrow> bool) \<Rightarrow> bool" where
  "preorder R = (reflp R \<and> transp R)"

text \<open>The calls a program makes are all in \<open>A\<close>.\<close>

definition calls_in :: "call set \<Rightarrow> sys \<Rightarrow> sys \<Rightarrow> bool" where
  "calls_in A s t = (\<exists>cs. trace t = trace s @ cs \<and> set cs \<subseteq> A)"

text \<open>The job object is left as it is.\<close>

definition same_self :: "sys \<Rightarrow> sys \<Rightarrow> bool" where
  "same_self s t = (self t = self s)"

text \<open>The calls of the NoSpherA2 pass that no other part of \<^verbatim>\<open>refine\<close> makes.\<close>

definition nos2_calls :: "call set" where
  "nos2_calls = {EndUpdate, HasGUI, Refresh, PerfCounter, OlexM ''refine 20'', GetVar ''Run_number''}"

text \<open>
  The statements of \<^verbatim>\<open>refine\<close> after the extinction branch (lines 166 to 181), and its
  handler (lines 183 to 185).
\<close>

definition refine_rest :: "runtime \<Rightarrow> (sys, unit) prog" where
  "refine_rest W = block [olex_m W ''refine 10'',
     bind get_self (\<lambda>job. if use_nos2 job then nos2_pass W else ret ())]"

definition refine_handler :: "exn \<Rightarrow> (sys, unit) prog" where
  "refine_handler error = block [write_log (exn_str error), write_log ''Failed during refinenement!'']"

text \<open>
  Relations that do not look at the calls, the console, the local variables, the log or
  the two counters of the job; \<open>quiet\<close> ones do not look at the results file either.
\<close>

definition quiet_log :: "(sys \<Rightarrow> sys \<Rightarrow> bool) \<Rightarrow> bool" where
  "quiet_log R = (preorder R
     \<and> (\<forall>s x. R s (s\<lparr>trace := x\<rparr>)) \<and> (\<forall>s x. R s (s\<lparr>stdout := x\<rparr>))
     \<and> (\<forall>s x. R s (s\<lparr>locals := x\<rparr>))
     \<and> (\<forall>s x. R s (s\<lparr>files := append_file (work_path (self s) @ [''out.log'']) x (files s)\<rparr>))
     \<and> (\<forall>s x. R s (s\<lparr>self := (self s)\<lparr>time_needed := x\<rparr>\<rparr>))
     \<and> (\<forall>s x. R s (s\<lparr>self := (self s)\<lparr>cycles_needed := x\<rparr>\<rparr>)))"

definition quiet :: "(sys \<Rightarrow> sys \<Rightarrow> bool) \<Rightarrow> bool" where
  "quiet R = (quiet_log R
     \<and> (\<forall>s x. R s (s\<lparr>files := append_file (work_path (self s) @ [''results.txt'']) x (files s)\<rparr>)))"

text \<open>The done marker of the job is left as it is.\<close>

definition keeps_done :: "sys \<Rightarrow> sys \<Rightarrow> bool" where
  "keeps_done s t = (work_path (self t) = work_path (self s)
     \<and> map_of (files t) (done_path (self s)) = map_of (files s) (done_path (self s)))"

text \<open>The state in which \<^verbatim>\<open>run\<close> calls \<^verbatim>\<open>extract_info\<close> (after lines 251 and 252).\<close>

definition after_refine :: "runtime \<Rightarrow> sys \<Rightarrow> sys" where
  "after_refine W s = snd (write_log_header ''Finished Refinement'' (snd (refine W s)))"

text \<open>The text of a file; a path that is no file reads as empty.\<close>

definition read_file :: "filesys \<Rightarrow> path \<Rightarrow> string" where
  "read_file t p = (case map_of t p of Some (File c) \<Rightarrow> c | _ \<Rightarrow> [])"

definition results_path :: "benchjob \<Rightarrow> path" where
  "results_path job = work_path job @ [''results.txt'']"

section \<open>Example jobs and runtimes\<close>

definition example_job :: benchjob where
  "example_job = \<lparr> base_work_path = [''data'', ''bench''], id' = 3, use_nos2 = False,
     nos2_params = None, work_path = [''data'', ''bench'', ''job_3''], time_needed = 0,
     cycles_needed = PInt 0, ins_file = Some [''data'', ''bench'', ''job_3'', ''m.ins''] \<rparr>"

definition example_sys :: "benchjob \<Rightarrow> sys" where
  "example_sys job = \<lparr> self = job, locals = new_frame, trace = [],
     files = [([''data''], Dir), ([''data'', ''bench''], Dir), ([''data'', ''bench'', ''job_3''], Dir)],
     stdout = [] \<rparr>"

text \<open>A host that reports the extinction value \<open>x\<close> and answers every other call.\<close>

definition exti_world :: "string \<Rightarrow> runtime" where
  "exti_world x =
     \<lparr> respond = (\<lambda>h c. case c of Exti \<Rightarrow> Inr (RVal (PStr x)) | _ \<Rightarrow> Inr (RVal (PBool True))),
       float_repr = (\<lambda>r. ''0.0'') \<rparr>"

text \<open>
  A host with one bonded pair, O1 and H1, at distance 0.98 with variance 0.0001, the cell
  of the specification's example and a report file of one line. It can be told to fail in
  one place.
\<close>

datatype fault = NoFault | EngineFails | NoCif | CovarianceFails

definition example_cif :: string where
  "example_cif = ''_refine_ls_R_factor_gt 0.05\<newline>''"

definition example_repr :: "real \<Rightarrow> string" where
  "example_repr x = (if x = 98 / 100 then ''0.98'' else if x = 1 / 100 then ''0.01''
     else if x = 5 / 100 then ''0.05'' else if x = 1 / 10 then ''0.1'' else ''0.0'')"

definition example_world :: "fault \<Rightarrow> runtime" where
  "example_world f =
     \<lparr> respond = (\<lambda>h c. case c of
          OlexM cmd \<Rightarrow> if f = EngineFails then Inl (Exn HostError ''engine failure'')
                       else Inr (RVal PNone)
        | Exti \<Rightarrow> Inr (RVal (PStr ''n/a''))
        | PerfCounter \<Rightarrow> Inr (RReal 0)
        | GetHklStat \<Rightarrow> Inr (RDict [(''TotalReflections'', PInt 100)])
        | GlobCif p \<Rightarrow> Inr (RStrs (if f = NoCif then [] else [''/data/bench/job_3/m.cif'']))
        | ReadFile p \<Rightarrow> Inr (RVal (PStr example_cif))
        | R1Factor co \<Rightarrow> Inr (RReal (5 / 100))
        | WR2 \<Rightarrow> Inr (RReal (1 / 10))
        | GetCell \<Rightarrow> Inr (RReals [5, 5, 7, 90, 90, 90])
        | GetCellErrors \<Rightarrow> Inr (RReals [1 / 100, 1 / 100, 2 / 100, 0, 0, 0])
        | ExtractLabels \<Rightarrow> Inr (RStrs [''O1'', ''H1''])
        | CovarianceMatrix \<Rightarrow> if f = CovarianceFails then Inl (Exn HostError ''singular matrix'')
                       else Inr (RVal PNone)
        | CalculateDistances vcv \<Rightarrow> Inr (RDists [Inr (0, 1, 98 / 100, 1 / 10000)])
        | _ \<Rightarrow> Inr (RVal (PStr ''1''))),
       float_repr = example_repr \<rparr>"

text \<open>How a statement ended: the class of the exception it raised, if any.\<close>

definition outcome :: "exn + 'a \<Rightarrow> exn_kind option" where
  "outcome r = (case r of Inl e \<Rightarrow> Some (kind_of e) | Inr x \<Rightarrow> None)"

section \<open>The stages of the propagation block\<close>








section \<open>Laws of sequencing\<close>

lemma bind_ret [simp]: "bind (ret x) f = f x"
  by (rule ext) (simp add: bind_def ret_def)

lemma bind_raise [simp]: "bind (raise e) f = raise e"
  by (rule ext) (simp add: bind_def raise_def)

lemma if_ret_False: "(if c then ret x else ret False) = ret (c \<and> x)"
  by simp

lemma upt_3:
  "[0 ..< (3::nat)] = [0, 1, 2]" "[1 ..< (3::nat)] = [1, 2]" "[2 ..< (3::nat)] = [2]"
  "[3 ..< (3::nat)] = []" "[Suc 0 ..< 3] = [1, 2]" "[Suc (Suc 0) ..< 3] = [2]"
  "[Suc 2 ..< 3] = []"
  by (simp_all add: upt_rec)

section \<open>Relations that every run upholds\<close>

lemma upholdsD: "upholds R m \<Longrightarrow> R s (snd (m s))"
  by (simp add: upholds_def)

lemma upholds_ret: "preorder R \<Longrightarrow> upholds R (ret x)"
  by (simp add: upholds_def ret_def preorder_def reflpD)

lemma upholds_raise: "preorder R \<Longrightarrow> upholds R (raise e)"
  by (simp add: upholds_def raise_def preorder_def reflpD)

lemma upholds_bind:
  assumes "preorder R" "upholds R m" "\<And>x. upholds R (f x)"
  shows "upholds R (bind m f)"
proof -
  have "R s (snd (bind m f s))" for s
  proof (cases "m s")
    case (Pair r s')
    have 1: "R s s'" using upholdsD [OF assms(2), of s] Pair by simp
    show ?thesis
    proof (cases r)
      case (Inl e)
      then show ?thesis using 1 Pair by (simp add: bind_def)
    next
      case (Inr x)
      have "R s' (snd (f x s'))" using upholdsD [OF assms(3)] .
      with 1 have "R s (snd (f x s'))" using assms(1) by (auto simp: preorder_def dest: transpD)
      then show ?thesis using Pair Inr by (simp add: bind_def)
    qed
  qed
  then show ?thesis by (simp add: upholds_def)
qed

lemma upholds_try:
  assumes "preorder R" "upholds R m" "\<And>e. upholds R (h e)"
  shows "upholds R (try_except m h)"
proof -
  have "R s (snd (try_except m h s))" for s
  proof (cases "m s")
    case (Pair r s')
    have 1: "R s s'" using upholdsD [OF assms(2), of s] Pair by simp
    show ?thesis
    proof (cases r)
      case (Inr x)
      then show ?thesis using 1 Pair by (simp add: try_except_def)
    next
      case (Inl e)
      have "R s' (snd (h e s'))" using upholdsD [OF assms(3)] .
      with 1 have "R s (snd (h e s'))" using assms(1) by (auto simp: preorder_def dest: transpD)
      then show ?thesis using Pair Inl by (simp add: try_except_def)
    qed
  qed
  then show ?thesis by (simp add: upholds_def)
qed

lemma upholds_block:
  assumes "preorder R" "\<And>m. m \<in> set ms \<Longrightarrow> upholds R m"
  shows "upholds R (block ms)"
  using assms(2)
  by (induction ms) (auto intro: upholds_ret upholds_bind assms(1))

lemma upholds_Nil: "preorder R \<Longrightarrow> upholds R (block [])"
  by (simp add: upholds_ret)

lemma upholds_Cons:
  "preorder R \<Longrightarrow> upholds R m \<Longrightarrow> upholds R (block ms) \<Longrightarrow> upholds R (block (m # ms))"
  by (simp add: upholds_bind)

lemma upholds_for_each:
  assumes "preorder R" "\<And>x. upholds R (body x)"
  shows "upholds R (for_each xs body)"
  unfolding for_each_def using assms by (auto intro!: upholds_block)

lemma upholds_if: "upholds R a \<Longrightarrow> upholds R b \<Longrightarrow> upholds R (if c then a else b)"
  by simp

lemma upholds_modify: "(\<And>s. R s (f s)) \<Longrightarrow> upholds R (modify f)"
  by (simp add: upholds_def modify_def)

lemma upholds_case_prod: "(\<And>a b. upholds R (f a b)) \<Longrightarrow> upholds R (case p of (a, b) \<Rightarrow> f a b)"
  by (cases p) simp

lemma upholds_pure:
  assumes "preorder R"
  shows "upholds R (py_index xs i)" "upholds R (py_float x)" "upholds R (py_int x)" "upholds R (py_sqrt y)"
    "upholds R (str_split v c)" "upholds R (iter_dict d)" "upholds R (expect_val r)" "upholds R (expect_real r)"
    "upholds R (expect_reals r)" "upholds R (expect_strs r)" "upholds R (expect_dict r)" "upholds R (expect_dists r)"
    "upholds R (py_last zs)" "upholds R (lift_result q)" "upholds R (dict_get dd k)" "upholds R (py_getitem xs n)"
  using assms
  by (auto simp: py_index_def py_float_def py_int_def py_sqrt_def str_split_def iter_dict_def expect_val_def
      expect_real_def expect_reals_def expect_strs_def expect_dict_def expect_dists_def py_last_def
      lift_result_def dict_get_def py_getitem_def
      intro: upholds_ret upholds_raise split: option.splits pyval.splits reply.splits sum.splits)

lemma preorder_calls_in: "preorder (calls_in A)"
  unfolding preorder_def calls_in_def
  by (auto intro!: reflpI transpI)

lemma preorder_same_self: "preorder same_self"
  unfolding preorder_def same_self_def
  by (auto intro!: reflpI transpI)

lemma calls_host: "c \<in> A \<Longrightarrow> upholds (calls_in A) (host W c)"
  by (simp add: upholds_def calls_in_def host_def)

lemma calls_prims:
  "upholds (calls_in A) (write_log x)" "upholds (calls_in A) (write_log_header x)"
  "upholds (calls_in A) (print_line x)" "upholds (calls_in A) (set_self g)"
  "upholds (calls_in A) (set_local h)" "upholds (calls_in A) get_self"
  "upholds (calls_in A) get_locals" "upholds (calls_in A) (out_write x)"
  "upholds (calls_in A) create_done"
  by (simp_all add: upholds_def calls_in_def write_log_def write_log_header_def print_line_def
      set_self_def set_local_def get_self_def get_locals_def out_write_def create_done_def
      modify_def Let_def)

lemmas calls_struct =
  upholds_bind [OF preorder_calls_in] upholds_Nil [OF preorder_calls_in]
  upholds_Cons [OF preorder_calls_in]
  upholds_try [OF preorder_calls_in] upholds_for_each [OF preorder_calls_in]
  upholds_ret [OF preorder_calls_in] upholds_raise [OF preorder_calls_in]
  upholds_pure [OF preorder_calls_in] upholds_if upholds_case_prod calls_prims

lemma calls_wrappers:
  "c \<in> A \<Longrightarrow> upholds (calls_in A) (command W c)"
  "c \<in> A \<Longrightarrow> upholds (calls_in A) (query W c)"
  "OlexM cmd \<in> A \<Longrightarrow> upholds (calls_in A) (olex_m W cmd)"
  "GetParam n \<in> A \<Longrightarrow> upholds (calls_in A) (OV_GetParam W n)"
  "SetParam n v \<in> A \<Longrightarrow> upholds (calls_in A) (OV_SetParam W n v)"
  "GetVar n \<in> A \<Longrightarrow> upholds (calls_in A) (OV_GetVar W n)"
  "PerfCounter \<in> A \<Longrightarrow> upholds (calls_in A) (perf_counter W)"
  unfolding command_def query_def olex_m_def OV_GetParam_def OV_SetParam_def OV_GetVar_def
    perf_counter_def
  by (auto intro!: calls_struct calls_host)

lemma get_ins_file_calls: "upholds (calls_in A) get_ins_file"
  unfolding get_ins_file_def
  by (auto intro!: calls_struct split: option.splits)

section \<open>Running the primitive statements\<close>

lemma write_log_run: "write_log x s = (Inr (), s\<lparr>files := append_file (work_path (self s) @ [''out.log'']) (x @ ''\<newline>'') (files s)\<rparr>)"
  by (simp add: write_log_def modify_def)

lemma command_run: "command W c s = ((case respond W (trace s) c of Inl e \<Rightarrow> Inl e | Inr r \<Rightarrow> Inr ()), s\<lparr>trace := trace s @ [c]\<rparr>)"
  by (simp add: command_def host_def bind_def ret_def split: sum.splits)

lemma query_run: "query W c s = ((case respond W (trace s) c of Inl e \<Rightarrow> Inl e | Inr (RVal v) \<Rightarrow> Inr v | Inr _ \<Rightarrow> Inl (Exn TypeError ''unexpected reply'')), s\<lparr>trace := trace s @ [c]\<rparr>)"
  by (simp add: query_def host_def bind_def ret_def raise_def expect_val_def split: sum.splits reply.splits)

lemma host_run: "host W c s = (respond W (trace s) c, s\<lparr>trace := trace s @ [c]\<rparr>)"
  by (simp add: host_def)

lemma bind_unit [simp]: "bind m (\<lambda>_. ret ()) = m"
  by (rule ext) (auto simp: bind_def ret_def split: prod.splits sum.splits)

section \<open>The extinction branch\<close>

lemma pf1: "parse_float ''0.0005'' = Some (5 / 10000)"
  by (simp add: parse_float_def parse_sign_def strip_def is_space_def is_digit_def parse_exponent_def
      parse_digits_def digits_val_def Let_def)

lemma pf2: "parse_float ''0.002'' = Some (2 / 1000)"
  by (simp add: parse_float_def parse_sign_def strip_def is_space_def is_digit_def parse_exponent_def
      parse_digits_def digits_val_def Let_def)

lemma exti_small:
  assumes "respond W (trace s) Exti = Inr (RVal (PStr ''0.0005(3)''))"
  shows "trace (snd (exti_branch W s)) = trace s @ [Exti, delete_exti]"
  using assms
  by (simp add: exti_branch_def query_run command_run write_log_run bind_def ret_def 
      str_split_def split_on_def py_index_def py_float_def pf1 split: sum.splits)

lemma exti_large:
  assumes "respond W (trace s) Exti = Inr (RVal (PStr ''0.002(1)''))"
  shows "trace (snd (exti_branch W s)) = trace s @ [Exti, set_levenberg_marquardt]"
  using assms
  by (simp add: exti_branch_def query_run command_run write_log_run bind_def ret_def 
      str_split_def split_on_def py_index_def py_float_def pf2 split: sum.splits)

lemma exti_na:
  assumes "respond W (trace s) Exti = Inr (RVal (PStr ''n/a''))"
  shows "trace (snd (exti_branch W s)) = trace s @ [Exti]"
  using assms
  by (simp add: exti_branch_def query_run command_run write_log_run bind_def ret_def 
      str_split_def split_on_def py_index_def py_float_def pf2 split: sum.splits)

lemma refine_start_calls:
  assumes "B \<subseteq> nos2_calls \<union> {delete_exti, set_levenberg_marquardt, Exti}"
  shows "upholds (calls_in (- B)) (refine_start W)"
  unfolding refine_start_def
  by (intro calls_struct calls_wrappers get_ins_file_calls)
     (use assms in \<open>auto simp: nos2_calls_def delete_exti_def set_levenberg_marquardt_def\<close>)

lemma configure_ORCA_calls:
  assumes "B \<subseteq> {delete_exti, set_levenberg_marquardt, Exti}"
  shows "upholds (calls_in (- B)) (configure_ORCA W)"
  unfolding configure_ORCA_def
  by (intro calls_struct calls_wrappers)
     (use assms in \<open>auto simp: delete_exti_def set_levenberg_marquardt_def\<close>)

lemma nos2_pass_calls:
  assumes "B \<subseteq> {delete_exti, set_levenberg_marquardt, Exti}"
  shows "upholds (calls_in (- B)) (nos2_pass W)"
  unfolding nos2_pass_def
  by (intro calls_struct calls_wrappers configure_ORCA_calls assms)
     (use assms in \<open>auto simp: delete_exti_def set_levenberg_marquardt_def\<close>)

lemma refine_rest_calls:
  assumes "B \<subseteq> {delete_exti, set_levenberg_marquardt, Exti}"
  shows "upholds (calls_in (- B)) (refine_rest W)"
  unfolding refine_rest_def
  by (intro calls_struct calls_wrappers nos2_pass_calls assms)
     (use assms in \<open>auto simp: delete_exti_def set_levenberg_marquardt_def\<close>)

lemma refine_handler_calls: "upholds (calls_in A) (refine_handler e)"
  unfolding refine_handler_def by (intro calls_struct)

lemma try_tail_trace:
  assumes k: "upholds (calls_in A) k" and h: "\<And>e. upholds (calls_in A) (h e)"
  shows "\<exists>cs. trace (snd (try_except (bind m (\<lambda>_. k)) h s)) = trace (snd (m s)) @ cs \<and> set cs \<subseteq> A"
proof (cases "m s")
  case (Pair r s')
  show ?thesis
  proof (cases r)
    case (Inl e)
    have "calls_in A s' (snd (h e s'))" using upholdsD [OF h] .
    then show ?thesis using Pair Inl by (simp add: try_except_def bind_def calls_in_def)
  next
    case (Inr x)
    have "upholds (calls_in A) (try_except k h)"
      by (intro upholds_try preorder_calls_in k h)
    then have "calls_in A s' (snd (try_except k h s'))" by (rule upholdsD)
    then show ?thesis using Pair Inr by (simp add: try_except_def bind_def calls_in_def)
  qed
qed

lemma refine_from_start:
  assumes "refine_start W s = (Inr (), s1)"
  shows "refine W s = try_except (bind (exti_branch W) (\<lambda>_. refine_rest W)) refine_handler s1"
proof -
  have "refine_body W = bind (refine_start W) (\<lambda>_. bind (exti_branch W) (\<lambda>_. refine_rest W))"
    by (simp add: refine_body_def refine_rest_def)
  then show ?thesis
    using assms by (simp add: refine_def try_except_def bind_def refine_handler_def [abs_def])
qed

text \<open>
  C4. Let the stages before the extinction branch (load, prepare, weighting, engine, first
  pass) have run without an exception. If the engine then reports the extinction value
  \<^verbatim>\<open>0.0005(3)\<close>, the calls of the whole pass contain the instruction that deletes EXTI
  and not the switch to Levenberg-Marquardt; if it reports \<^verbatim>\<open>0.002(1)\<close>, they contain the
  switch and not the deletion; if it reports \<^verbatim>\<open>n/a\<close>, they contain neither.
\<close>

theorem refine_extinction_branch:
  assumes "refine_start W s = (Inr (), s1)"
  shows "(respond W (trace s1) Exti = Inr (RVal (PStr ''0.0005(3)'')) \<longrightarrow>
           (\<exists>cs. trace (snd (refine W s)) = trace s @ cs
              \<and> delete_exti \<in> set cs \<and> set_levenberg_marquardt \<notin> set cs))
       \<and> (respond W (trace s1) Exti = Inr (RVal (PStr ''0.002(1)'')) \<longrightarrow>
           (\<exists>cs. trace (snd (refine W s)) = trace s @ cs
              \<and> set_levenberg_marquardt \<in> set cs \<and> delete_exti \<notin> set cs))
       \<and> (respond W (trace s1) Exti = Inr (RVal (PStr ''n/a'')) \<longrightarrow>
           (\<exists>cs. trace (snd (refine W s)) = trace s @ cs
              \<and> delete_exti \<notin> set cs \<and> set_levenberg_marquardt \<notin> set cs))"
proof -
  let ?B = "{delete_exti, set_levenberg_marquardt}"
  have "calls_in (- ?B) s (snd (refine_start W s))"
    by (rule upholdsD [OF refine_start_calls]) auto
  then obtain c0 where c0: "trace s1 = trace s @ c0" "set c0 \<subseteq> - ?B"
    using assms by (auto simp: calls_in_def)
  obtain c3 where c3: "trace (snd (refine W s)) = trace (snd (exti_branch W s1)) @ c3" "set c3 \<subseteq> - ?B"
    using try_tail_trace [of "- ?B" "refine_rest W" refine_handler "exti_branch W" s1]
      refine_rest_calls [of ?B W] refine_handler_calls
    unfolding refine_from_start [OF assms] by auto
  have ne: "delete_exti \<noteq> set_levenberg_marquardt" "Exti \<noteq> delete_exti" "Exti \<noteq> set_levenberg_marquardt"
    by (simp_all add: delete_exti_def set_levenberg_marquardt_def)
  show ?thesis
  proof (intro conjI impI)
    assume "respond W (trace s1) Exti = Inr (RVal (PStr ''0.0005(3)''))"
    from exti_small [OF this] c0 c3 ne
    show "\<exists>cs. trace (snd (refine W s)) = trace s @ cs
              \<and> delete_exti \<in> set cs \<and> set_levenberg_marquardt \<notin> set cs"
      by (intro exI [of _ "c0 @ [Exti, delete_exti] @ c3"]) auto
  next
    assume "respond W (trace s1) Exti = Inr (RVal (PStr ''0.002(1)''))"
    from exti_large [OF this] c0 c3 ne
    show "\<exists>cs. trace (snd (refine W s)) = trace s @ cs
              \<and> set_levenberg_marquardt \<in> set cs \<and> delete_exti \<notin> set cs"
      by (intro exI [of _ "c0 @ [Exti, set_levenberg_marquardt] @ c3"]) auto
  next
    assume "respond W (trace s1) Exti = Inr (RVal (PStr ''n/a''))"
    from exti_na [OF this] c0 c3 ne
    show "\<exists>cs. trace (snd (refine W s)) = trace s @ cs
              \<and> delete_exti \<notin> set cs \<and> set_levenberg_marquardt \<notin> set cs"
      by (intro exI [of _ "c0 @ [Exti] @ c3"]) auto
  qed
qed

lemma refine_start_example:
  "fst (refine_start (exti_world x) (example_sys example_job)) = Inr ()"
  by (simp add: refine_start_def exti_world_def example_sys_def example_job_def bind_def ret_def
      get_ins_file_def get_self_def olex_m_def command_run write_log_run write_log_header_def
      OV_GetParam_def OV_SetParam_def host_run expect_val_def truthy_def for_each_def upt_3 Let_def)

lemma respond_exti: "respond (exti_world x) h Exti = Inr (RVal (PStr x))"
  by (simp add: exti_world_def)

theorem refine_extinction_branch_witness:
  "(\<exists>cs. trace (snd (refine (exti_world ''0.0005(3)'') (example_sys example_job))) = trace (example_sys example_job) @ cs
      \<and> delete_exti \<in> set cs \<and> set_levenberg_marquardt \<notin> set cs)
   \<and> (\<exists>cs. trace (snd (refine (exti_world ''0.002(1)'') (example_sys example_job))) = trace (example_sys example_job) @ cs
      \<and> set_levenberg_marquardt \<in> set cs \<and> delete_exti \<notin> set cs)
   \<and> (\<exists>cs. trace (snd (refine (exti_world ''n/a'') (example_sys example_job))) = trace (example_sys example_job) @ cs
      \<and> delete_exti \<notin> set cs \<and> set_levenberg_marquardt \<notin> set cs)"
proof -
  have st: "refine_start (exti_world x) (example_sys example_job)
      = (Inr (), snd (refine_start (exti_world x) (example_sys example_job)))" for x
    using refine_start_example [of x] by (metis prod.collapse)
  show ?thesis
    using refine_extinction_branch [OF st [of "''0.0005(3)''"]]
      refine_extinction_branch [OF st [of "''0.002(1)''"]]
      refine_extinction_branch [OF st [of "''n/a''"]]
    by (simp add: respond_exti)
qed

section \<open>The cell covariance matrix\<close>


lemma constrained_pair_6:
  assumes "length cp = 6" "length ce = 6" "i < 3" "j < 3"
  shows "constrained_pair cp ce i j = ret (constrained cp ce i j)"
  using assms
  by (simp add: constrained_pair_def and_also_def idx_eq_def idx_is_def py_index_def
      if_ret_False constrained_def)

lemma cell_loop_6:
  assumes "length cp = 6" "length ce = 6"
  shows "cell_loop cp ce =
    block [block [pair_step cp ce 0 1, pair_step cp ce 0 2], block [pair_step cp ce 1 2], block []]"
  unfolding pair_step_def cell_loop_def for_each_def using assms
  by (simp add: upt_3 constrained_pair_6 py_index_def)

lemma loop_explicit:
  "block [block [pair_step cp ce 0 1, pair_step cp ce 0 2], block [pair_step cp ce 1 2], block []]
     [[d0, 0, 0, 0, 0, 0], [0, d1, 0, 0, 0, 0], [0, 0, d2, 0, 0, 0], r3, r4, r5] =
   (Inr (),
    [[d0, if constrained cp ce 0 1 then (ce ! 0)\<^sup>2 else 0,
          if constrained cp ce 0 2 then (ce ! 0)\<^sup>2 else 0, 0, 0, 0],
     [if constrained cp ce 0 1 then (ce ! 0)\<^sup>2 else 0, d1,
          if constrained cp ce 1 2 then (ce ! 1)\<^sup>2 else 0, 0, 0, 0],
     [if constrained cp ce 0 2 then (ce ! 0)\<^sup>2 else 0,
          if constrained cp ce 1 2 then (ce ! 1)\<^sup>2 else 0, d2, 0, 0, 0], r3, r4, r5])"
  by (cases "constrained cp ce 0 1"; cases "constrained cp ce 0 2"; cases "constrained cp ce 1 2")
     (simp_all add: pair_step_def mat_set_def bind_def ret_def)

lemma diag_pow2_6:
  "diag_pow2 [e0, e1, e2, e3, e4, e5] =
     [[e0\<^sup>2, 0, 0, 0, 0, 0], [0, e1\<^sup>2, 0, 0, 0, 0], [0, 0, e2\<^sup>2, 0, 0, 0],
      [0, 0, 0, e3\<^sup>2, 0, 0], [0, 0, 0, 0, e4\<^sup>2, 0], [0, 0, 0, 0, 0, e5\<^sup>2]]"
  by (simp add: diag_pow2_def upt_rec [of 0 6] upt_rec [of 1 6] upt_rec [of 2 6]
      upt_rec [of 3 6] upt_rec [of 4 6] upt_rec [of 5 6] upt_rec [of 6 6])




lemma example_cell_cov:
  "cell_covariance [5, 5, 7, 90, 90, 90] [1 / 100, 1 / 100, 1 / 50, 0, 0, 0] =
     Inr [[1 / 10000, 1 / 10000, 0, 0, 0, 0], [1 / 10000, 1 / 10000, 0, 0, 0, 0],
          [0, 0, 1 / 2500, 0, 0, 0], [0, 0, 0, 0, 0, 0], [0, 0, 0, 0, 0, 0], [0, 0, 0, 0, 0, 0]]"
proof -
  have L: "cell_loop [5, 5, 7, 90, 90, 90] [1 / 100, 1 / 100, 1 / 50, 0, 0, 0] =
      block [block [pair_step [5, 5, 7, 90, 90, 90] [1 / 100, 1 / 100, 1 / 50, 0, 0, 0] 0 1,
                    pair_step [5, 5, 7, 90, 90, 90] [1 / 100, 1 / 100, 1 / 50, 0, 0, 0] 0 2],
             block [pair_step [5, 5, 7, 90, 90, 90] [1 / 100, 1 / 100, 1 / 50, 0, 0, 0] 1 2], block []]"
    by (rule cell_loop_6) simp_all
  show ?thesis
    unfolding cell_covariance_def L diag_pow2_6 loop_explicit
    by (simp add: constrained_def power2_eq_square)
qed


section \<open>What the pipeline leaves alone\<close>

lemma quiet_log_preorder: "quiet_log R \<Longrightarrow> preorder R"
  by (simp add: quiet_log_def)

lemma quiet_quiet_log: "quiet R \<Longrightarrow> quiet_log R"
  by (simp add: quiet_def)

lemma quiet_log_prims:
  assumes "quiet_log R"
  shows "upholds R (host W c)" "upholds R (write_log x)" "upholds R (write_log_header x)"
    "upholds R (print_line x)" "upholds R (set_local h)" "upholds R get_self" "upholds R get_locals"
    "upholds R (set_self (\<lambda>job. job\<lparr>time_needed := y\<rparr>))"
    "upholds R (set_self (\<lambda>job. job\<lparr>cycles_needed := v\<rparr>))"
  using assms
  by (simp_all add: upholds_def quiet_log_def host_def write_log_def write_log_header_def print_line_def
      set_local_def get_self_def get_locals_def set_self_def modify_def Let_def
      preorder_def reflpD)

lemma quiet_out_write: "quiet R \<Longrightarrow> upholds R (out_write x)"
  by (simp add: upholds_def quiet_def out_write_def modify_def)

lemmas quiet_struct =
  upholds_bind [OF quiet_log_preorder] upholds_Nil [OF quiet_log_preorder]
  upholds_Cons [OF quiet_log_preorder]
  upholds_try [OF quiet_log_preorder] upholds_for_each [OF quiet_log_preorder]
  upholds_ret [OF quiet_log_preorder] upholds_raise [OF quiet_log_preorder]
  upholds_pure [OF quiet_log_preorder] upholds_if upholds_case_prod quiet_log_prims

lemma quiet_wrappers:
  assumes "quiet_log R"
  shows "upholds R (command W c)" "upholds R (query W c)" "upholds R (olex_m W cmd)"
  "upholds R (OV_GetParam W n)" "upholds R (OV_SetParam W n v)" "upholds R (OV_GetVar W n)"
  "upholds R (perf_counter W)" "upholds R get_ins_file" "upholds R (get_local var name)"
  "upholds R (open_read W loc)" "upholds R (cell_put k v)" "upholds R (table_name_of W)"
  unfolding command_def query_def olex_m_def OV_GetParam_def OV_SetParam_def OV_GetVar_def
    perf_counter_def get_ins_file_def get_local_def open_read_def cell_put_def table_name_of_def
  by (auto intro!: quiet_struct assms split: option.splits pyval.splits)

lemma quiet_refine:
  assumes "quiet_log R"
  shows "upholds R (refine W)"
  unfolding refine_def refine_body_def refine_start_def exti_branch_def nos2_pass_def configure_ORCA_def
  by (intro quiet_struct quiet_wrappers assms)

lemma quiet_atom_pass:
  assumes "quiet_log R"
  shows "upholds R (atom_pass b ls)"
proof (induction ls arbitrary: b)
  case Nil
  show ?case by (simp add: upholds_ret quiet_log_preorder assms)
next
  case (Cons l ls)
  have "upholds R (atom_line l)"
    unfolding atom_line_def Let_def by (intro quiet_struct assms)
  then show ?case
    using Cons by (auto intro!: quiet_struct assms)
qed

lemma quiet_stages:
  assumes "quiet_log R"
  shows "upholds R (extract_cell_stats W)" "upholds R (extract_hkl_stats W)"
    "upholds R (extract_cif_stats W)" "upholds R (propagate W)"
  unfolding extract_cell_stats_def extract_hkl_stats_def extract_cif_stats_def
    propagate_def propagate_body_def parse_cif_def basic_line_def distance_step_def
  by (intro quiet_struct quiet_wrappers quiet_atom_pass assms)+

lemma quiet_write_results:
  assumes "quiet R"
  shows "upholds R (write_results W)"
  unfolding write_results_def
  by (intro quiet_struct quiet_wrappers quiet_out_write assms quiet_quiet_log)

lemma quiet_extract_info:
  assumes "quiet R"
  shows "upholds R (extract_info W)"
  unfolding extract_info_def
  by (intro quiet_struct quiet_stages quiet_write_results assms quiet_quiet_log)

section \<open>The example host, step by step\<close>

lemma sqrt_example: "sqrt (1 / 10000) = 1 / 100"
  by (rule real_sqrt_unique) (simp_all add: power2_eq_square)

lemma respond_example [simp]:
  "respond (example_world f) h (OlexM cmd) =
     (if f = EngineFails then Inl (Exn HostError ''engine failure'') else Inr (RVal PNone))"
  "respond (example_world f) h Exti = Inr (RVal (PStr ''n/a''))"
  "respond (example_world f) h PerfCounter = Inr (RReal 0)"
  "respond (example_world f) h GetHklStat = Inr (RDict [(''TotalReflections'', PInt 100)])"
  "respond (example_world f) h (GlobCif p) =
     Inr (RStrs (if f = NoCif then [] else [''/data/bench/job_3/m.cif'']))"
  "respond (example_world f) h (ReadFile q) = Inr (RVal (PStr example_cif))"
  "respond (example_world f) h (R1Factor co) = Inr (RReal (5 / 100))"
  "respond (example_world f) h WR2 = Inr (RReal (1 / 10))"
  "respond (example_world f) h GetCell = Inr (RReals [5, 5, 7, 90, 90, 90])"
  "respond (example_world f) h GetCellErrors = Inr (RReals [1 / 100, 1 / 100, 2 / 100, 0, 0, 0])"
  "respond (example_world f) h ExtractLabels = Inr (RStrs [''O1'', ''H1''])"
  "respond (example_world f) h CovarianceMatrix =
     (if f = CovarianceFails then Inl (Exn HostError ''singular matrix'') else Inr (RVal PNone))"
  "respond (example_world f) h (CalculateDistances vcv) = Inr (RDists [Inr (0, 1, 98 / 100, 1 / 10000)])"
  "respond (example_world f) h (GetParam n) = Inr (RVal (PStr ''1''))"
  "respond (example_world f) h (SetParam n v) = Inr (RVal (PStr ''1''))"
  "respond (example_world f) h (GetVar n) = Inr (RVal (PStr ''1''))"
  "respond (example_world f) h (AddIns n) = Inr (RVal (PStr ''1''))"
  "respond (example_world f) h (CellEx n) = Inr (RVal (PStr ''1''))"
  "respond (example_world f) h VolumeEx = Inr (RVal (PStr ''1''))"
  "respond (example_world f) h GetZ = Inr (RVal (PStr ''1''))"
  "respond (example_world f) h GetZprime = Inr (RVal (PStr ''1''))"
  "respond (example_world f) h NPDCount = Inr (RVal (PStr ''1''))"
  "respond (example_world f) h EndUpdate = Inr (RVal (PStr ''1''))"
  "respond (example_world f) h HasGUI = Inr (RVal (PStr ''1''))"
  "respond (example_world f) h Refresh = Inr (RVal (PStr ''1''))"
  "respond (example_world f) h ImportCctbx = Inr (RVal (PStr ''1''))"
  "respond (example_world f) h FullMatrixRefine = Inr (RVal (PStr ''1''))"
  "respond (example_world f) h (FmrRun tn) = Inr (RVal (PStr ''1''))"
  "respond (example_world f) h BuildUp = Inr (RVal (PStr ''1''))"
  "respond (example_world f) h ConnectivityTable = Inr (RVal (PStr ''1''))"
  "respond (example_world f) h XrayStructure = Inr (RVal (PStr ''1''))"
  "respond (example_world f) h SitesFrac = Inr (RVal (PStr ''1''))"
  "respond (example_world f) h ParameterMap = Inr (RVal (PStr ''1''))"
  "respond (example_world f) h PairAsuTable = Inr (RVal (PStr ''1''))"
  "float_repr (example_world f) = example_repr"
  by (simp_all add: example_world_def)

lemma read_append_same: "read_file (append_file p x t) p = read_file t p @ x"
  by (auto simp: read_file_def append_file_def update_conv' split: option.splits node.splits)

lemma read_append_other: "q \<noteq> p \<Longrightarrow> read_file (append_file p x t) q = read_file t q"
  by (auto simp: read_file_def append_file_def update_conv' split: option.splits node.splits)

lemmas run_defs = bind_def ret_def raise_def try_except_def modify_def for_each_def py_index_def
  set_local_def get_local_def get_locals_def get_self_def set_self_def host_run query_def command_def
  expect_val_def expect_real_def expect_reals_def expect_strs_def expect_dict_def expect_dists_def
  OV_GetParam_def OV_SetParam_def OV_GetVar_def olex_m_def perf_counter_def write_log_def
  write_log_header_def print_line_def out_write_def lift_result_def dict_get_def dict_set_def
  py_last_def iter_dict_def

lemmas eval_defs = run_defs extract_info_def extract_cell_stats_def extract_hkl_stats_def
  extract_cif_stats_def parse_cif_def open_read_def example_cif_def
  basic_line_def enumerate_def corr_filts_def dat_names_def py_split_def is_space_def
  py_float_def parse_float_def parse_sign_def parse_exponent_def parse_digits_def strip_def is_digit_def
  digits_val_def Let_def upt_rec [of 0 9] upt_rec [of 1 9] upt_rec [of 2 9] upt_rec [of 3 9]
  upt_rec [of 4 9] upt_rec [of 5 9] upt_rec [of 6 9] upt_rec [of 7 9] upt_rec [of 8 9] upt_rec [of 9 9]
  cell_put_def new_frame_def propagate_def propagate_body_def table_name_of_def distance_step_def
  py_sqrt_def sqrt_example write_results_def refine_keys_def entry_def py_str_def example_repr_def
  example_job_def str_int_def str_nat.simps digit_char_def example_cell_cov
  read_append_same read_append_other

lemma extract_example:
  assumes "self s = example_job" "f \<noteq> NoCif" "f \<noteq> CovarianceFails"
  shows "(case extract_info (example_world f) s of (r, t) \<Rightarrow>
           (r, locals t, read_file (files t) [''data'', ''bench'', ''job_3'', ''results.txt'']))
     = (Inr (),
      \<lparr>cell_stats =
         Some
          [(''a'', PStr ''1''), (''b'', PStr ''1''), (''c'', PStr ''1''),
           (''alpha'', PStr ''1''), (''beta'', PStr ''1''),
           (''gamma'', PStr ''1''), (''volume'', PStr ''1''),
           (''Z'', PStr ''1''), (''Zprime'', PStr ''1'')],
         hkl_stats = Some [(''TotalReflections'', PInt 100)],
         cif_stats = Some [(''R1'', PFloat (1 / 20))],
         dist_stats = [(''O1-H1'', 49 / 50)],
         dist_errs = [(''O1-H1'', 1 / 100)], R1_all = 1 / 20, R1_gt = 1 / 20,
         wR2 = 1 / 10, out = [(''R1'', PFloat (1 / 20))]\<rparr>,
      read_file (files s) [''data'', ''bench'', ''job_3'', ''results.txt''] @
      ''NoSpherA2_Dict:\<newline>\<newline>Stats-GetHklStat:\<newline>TotalReflections:100,\<newline>Cell-Stats:\<newline>a:1,b:1,c:1,alpha:1,beta:1,gamma:1,volume:1,Z:1,Zprime:1,\<newline>CIF-stats:\<newline>R1:0.05,\<newline>refine_dict:\<newline>max_peak:1,max_hole:1,res_rms:1,goof:1,max_shift_over_esd:1,hooft_str:1,R1_all:0.05,R1_gt:0.05,wR2:0.1,cycles:0,time:0.0,\<newline>bondlengths:\<newline>O1-H1:0.98,\<newline>bonderrors:\<newline>O1-H1:0.01,\<newline>Weight:1\<newline>Nr. NPD:1\<newline>+++++++++++++++++++\<newline>'')"
  using assms
  by (simp add: eval_defs)

lemma extract_no_cif:
  assumes "self s = example_job"
  shows "(case extract_info (example_world NoCif) s of (r, t) \<Rightarrow>
           (outcome r, cif_stats (locals t),
            read_file (files t) [''data'', ''bench'', ''job_3'', ''results.txt''],
            read_file (files t) [''data'', ''bench'', ''job_3'', ''out.log'']))
     = (Some UnboundLocalError, None,
      read_file (files s) [''data'', ''bench'', ''job_3'', ''results.txt''] @
      ''NoSpherA2_Dict:\<newline>\<newline>Stats-GetHklStat:\<newline>TotalReflections:100,\<newline>Cell-Stats:\<newline>a:1,b:1,c:1,alpha:1,beta:1,gamma:1,volume:1,Z:1,Zprime:1,\<newline>CIF-stats:\<newline>'',
      read_file (files s) [''data'', ''bench'', ''job_3'', ''out.log''] @
      ''list index out of range\<newline>Failed to extract cif stats!\<newline>'')"
  using assms
  by (simp add: eval_defs outcome_def)


section \<open>The done marker\<close>

lemma map_of_append_file_other: "q \<noteq> p \<Longrightarrow> map_of (append_file p x t) q = map_of t q"
  by (auto simp: append_file_def update_conv' split: option.splits node.splits)

lemma quiet_keeps_done: "quiet keeps_done"
  unfolding quiet_def quiet_log_def preorder_def
  by (auto intro!: reflpI transpI simp: keeps_done_def done_path_def map_of_append_file_other)

lemma refine_returns: "fst (refine W s) = Inr ()"
  by (auto simp: refine_def try_except_def write_log_run bind_def ret_def split: prod.splits sum.splits)

lemma run_unfold:
  "BenchJob_run W s =
     (case extract_info W (after_refine W s) of
        (Inr u, t) \<Rightarrow> block [write_log ''Extracted Information'', create_done] t
      | (Inl e, t) \<Rightarrow> block [print_line ''Faield to extract information'',
                          write_log ''Failed to extract information!''] t)"
proof -
  obtain s1 where 1: "refine W s = (Inr (), s1)"
    using refine_returns [of W s] by (metis prod.collapse)
  show ?thesis
    by (auto simp: BenchJob_run_def after_refine_def 1 bind_def try_except_def ret_def write_log_header_def
        write_log_run Let_def print_line_def modify_def split: prod.splits sum.splits)
qed

lemma after_refine_keeps: "keeps_done s (after_refine W s)"
proof -
  have "upholds keeps_done (bind (refine W) (\<lambda>_. write_log_header ''Finished Refinement''))"
    by (intro quiet_struct quiet_refine quiet_keeps_done quiet_quiet_log)
  from upholdsD [OF this, of s] show ?thesis
    using refine_returns [of W s]
    by (auto simp: after_refine_def bind_def split: prod.splits sum.splits)
qed

text \<open>
  C1. Let the job's workspace hold no done marker when \<^verbatim>\<open>run\<close> starts (the constructor
  has just rebuilt it). Then \<^verbatim>\<open>run\<close> returns, and when it has returned the marker exists,
  as an empty file, if and only if the call of \<^verbatim>\<open>extract_info\<close> returned without raising.
  This holds for every host, so also when \<^verbatim>\<open>refine\<close> caught and logged a failure.
\<close>

theorem done_marker_iff_extraction:
  assumes "map_of (files s) (done_path (self s)) = None"
  shows "fst (BenchJob_run W s) = Inr ()
     \<and> (map_of (files (snd (BenchJob_run W s))) (done_path (self s)) = Some (File []))
        = (fst (extract_info W (after_refine W s)) = Inr ())"
proof (cases "extract_info W (after_refine W s)")
  case (Pair r t)
  have k1: "keeps_done s (after_refine W s)" by (rule after_refine_keeps)
  have k2: "keeps_done (after_refine W s) t"
    using upholdsD [OF quiet_extract_info [OF quiet_keeps_done], of "after_refine W s" W] Pair by simp
  have wp: "work_path (self t) = work_path (self s)"
    and dn: "map_of (files t) (done_path (self s)) = None"
    using k1 k2 assms by (auto simp: keeps_done_def done_path_def)
  show ?thesis
  proof (cases r)
    case (Inr u)
    then show ?thesis
      using Pair wp
      by (simp add: run_unfold write_log_run create_done_def modify_def bind_def ret_def done_path_def
          update_conv')
  next
    case (Inl e)
    then show ?thesis
      using Pair wp dn
      by (simp add: run_unfold write_log_run print_line_def modify_def bind_def ret_def done_path_def
          map_of_append_file_other)
  qed
qed

lemma example_self [simp]: "self (example_sys job) = job"
  by (simp add: example_sys_def)

lemma refine_engine_fails:
  assumes "self s = example_job"
  shows "fst (refine_body (example_world EngineFails) s) = Inl (Exn HostError ''engine failure'')"
    "self (after_refine (example_world EngineFails) s) = example_job"
  using assms
  by (simp_all add: after_refine_def refine_def refine_body_def refine_start_def get_ins_file_def
      example_job_def run_defs Let_def)

lemma refine_example_self:
  assumes "self s = example_job" "f \<noteq> EngineFails"
  shows "self (after_refine (example_world f) s) = example_job"
  using assms
  by (simp add: after_refine_def refine_def refine_body_def refine_start_def get_ins_file_def
      exti_branch_def truthy_def upt_3 example_job_def run_defs Let_def)

lemma example_no_done: "map_of (files (example_sys example_job)) (done_path (self (example_sys example_job))) = None"
  by (simp add: example_sys_def example_job_def done_path_def)

text \<open>
  Two runs of the example job. On a host whose engine fails, \<^verbatim>\<open>refine\<close> catches the
  failure, the extraction returns and the marker is created. On a host that leaves no
  report file the extraction raises and no marker is created.
\<close>

theorem done_marker_iff_extraction_witness:
  "fst (refine_body (example_world EngineFails) (example_sys example_job))
      = Inl (Exn HostError ''engine failure'')
   \<and> fst (BenchJob_run (example_world EngineFails) (example_sys example_job)) = Inr ()
   \<and> map_of (files (snd (BenchJob_run (example_world EngineFails) (example_sys example_job))))
        (done_path example_job) = Some (File [])
   \<and> map_of (files (snd (BenchJob_run (example_world NoCif) (example_sys example_job))))
        (done_path example_job) \<noteq> Some (File [])"
proof -
  let ?s = "example_sys example_job"
  have 1: "fst (extract_info (example_world EngineFails) (after_refine (example_world EngineFails) ?s)) = Inr ()"
    using extract_example [OF refine_engine_fails(2) [of ?s], of EngineFails]
    by (simp split: prod.splits)
  have 2: "fst (extract_info (example_world NoCif) (after_refine (example_world NoCif) ?s)) \<noteq> Inr ()"
    using extract_no_cif [OF refine_example_self [of ?s NoCif]]
    by (auto simp: outcome_def split: prod.splits)
  show ?thesis
    using done_marker_iff_extraction [OF example_no_done, of "example_world EngineFails"]
      done_marker_iff_extraction [OF example_no_done, of "example_world NoCif"]
      1 2 refine_engine_fails(1) [of ?s]
    by simp
qed

section \<open>A workspace without a report file\<close>

lemma example_files_empty [simp]:
  "read_file (files (example_sys job)) [''data'', ''bench'', ''job_3'', ''results.txt''] = []"
  "read_file (files (example_sys job)) [''data'', ''bench'', ''job_3'', ''out.log''] = []"
  by (simp_all add: example_sys_def read_file_def)

text \<open>
  C3. The code does not do what the claim says when no \<^verbatim>\<open>.cif\<close> file is found. The
  failed lookup of line 284 is caught and logged, but \<^verbatim>\<open>cif_stats\<close> is only bound inside
  that \<^verbatim>\<open>try\<close> (the sibling tables are given a value before theirs). The results writer
  then reads the unbound name at line 386: \<^verbatim>\<open>extract_info\<close> raises, and the results file
  stops after the header of the cif section. Here it is on the example job.
\<close>

theorem extract_info_without_cif:
  "outcome (fst (extract_info (example_world NoCif) (example_sys example_job))) = Some UnboundLocalError
   \<and> read_file (files (snd (extract_info (example_world NoCif) (example_sys example_job))))
        [''data'', ''bench'', ''job_3'', ''results.txt'']
      = ''NoSpherA2_Dict:\<newline>\<newline>Stats-GetHklStat:\<newline>TotalReflections:100,\<newline>Cell-Stats:\<newline>a:1,b:1,c:1,alpha:1,beta:1,gamma:1,volume:1,Z:1,Zprime:1,\<newline>CIF-stats:\<newline>''
   \<and> read_file (files (snd (extract_info (example_world NoCif) (example_sys example_job))))
        [''data'', ''bench'', ''job_3'', ''out.log'']
      = ''list index out of range\<newline>Failed to extract cif stats!\<newline>''"
  using extract_no_cif [of "example_sys example_job"]
  by (simp split: prod.splits)

section \<open>The propagation block, stage by stage\<close>

















subsection \<open>The stages on the example hosts\<close>








end
